theory Spec2Isabelle
  imports Complex_Main
begin

section \<open>Errors\<close>

text \<open>
  The exceptions that the Python source and the library calls it makes can raise.
  A computation that can raise returns \<open>error + 'a\<close>, with \<open>Inl\<close> the exception.
\<close>

datatype error =
    ZeroDivisionError   \<comment> \<open>Python \<open>/\<close> or \<open>**\<close> on a zero base\<close>
  | ValueError          \<comment> \<open>\<open>math.log\<close> outside its domain, a bad dropout probability, a failed unpacking\<close>
  | RuntimeError        \<comment> \<open>torch: negative tensor size, shapes that do not fit\<close>
  | IndexError          \<comment> \<open>torch: embedding index out of range\<close>
  | EinopsError         \<comment> \<open>einops: the pattern does not fit the tensor\<close>

definition bind :: "error + 'a \<Rightarrow> ('a \<Rightarrow> error + 'b) \<Rightarrow> error + 'b" where
  "bind m f = (case m of Inl e \<Rightarrow> Inl e | Inr x \<Rightarrow> f x)"

section \<open>T5 relative position buckets\<close>

text \<open>
  \<open>.long()\<close> on a float tensor truncates towards zero.
\<close>

definition long :: "real \<Rightarrow> int" where
  "long x = (if 0 \<le> x then \<lfloor>x\<rfloor> else \<lceil>x\<rceil>)"

text \<open>
  \<open>math.log(max_distance / max_exact)\<close> is evaluated on Python numbers: the true division
  raises \<open>ZeroDivisionError\<close> on a zero divisor and \<open>math.log\<close> raises \<open>ValueError\<close> on an
  argument that is not positive.
\<close>

definition math_log_ratio :: "int \<Rightarrow> int \<Rightarrow> error + real" where
  "math_log_ratio max_distance max_exact =
     (if max_exact = 0 then Inl ZeroDivisionError
      else if real_of_int max_distance / real_of_int max_exact \<le> 0 then Inl ValueError
      else Inr (ln (real_of_int max_distance / real_of_int max_exact)))"

text \<open>
  \<open>T5RelativePositionBias._relative_position_bucket\<close>, for one entry of the
  \<open>relative_position\<close> tensor (every tensor operation of the function is elementwise, and
  \<open>torch.where\<close> selects per entry, so the large branch computed for a small \<open>n\<close> is
  dropped). The tensor arithmetic is single precision in the source; here it is exact, on
  the reals. Where \<open>math.log\<close> returns \<open>0.0\<close> (\<open>max_distance = max_exact\<close>) the source
  divides a tensor by \<open>0.0\<close> and converts an infinity or a NaN to an integer, which torch
  leaves to the platform: no statement below is about that case.
\<close>

definition relative_position_bucket :: "int \<Rightarrow> int \<Rightarrow> int \<Rightarrow> error + int" where
  "relative_position_bucket relative_position num_buckets max_distance =
     (let n = - relative_position;
          n = max n 0;
          max_exact = num_buckets div 2;
          is_small = n < max_exact
      in bind (math_log_ratio max_distance max_exact) (\<lambda>log_ratio.
           let val_if_large = max_exact +
                 long (ln (real_of_int n / real_of_int max_exact) / log_ratio
                         * real_of_int (num_buckets - max_exact));
               val_if_large = min val_if_large (num_buckets - 1)
           in Inr (if is_small then n else val_if_large)))"

text \<open>
  The bucket formula as the specification words it, on the clamped distance \<open>n\<close>, with
  \<open>num_buckets/2\<close> a division of numbers and \<open>floor\<close> the rounding.
\<close>

definition spec_large_index :: "int \<Rightarrow> int \<Rightarrow> int \<Rightarrow> real" where
  "spec_large_index num_buckets max_distance n =
     real_of_int num_buckets / 2 +
     real_of_int \<lfloor>ln (real_of_int n / (real_of_int num_buckets / 2))
                    / ln (real_of_int max_distance / (real_of_int num_buckets / 2))
                    * (real_of_int num_buckets - real_of_int num_buckets / 2)\<rfloor>"

definition spec_bucket :: "int \<Rightarrow> int \<Rightarrow> int \<Rightarrow> real" where
  "spec_bucket num_buckets max_distance n =
     (if real_of_int n < real_of_int num_buckets / 2 then real_of_int n
      else min (spec_large_index num_buckets max_distance n) (real_of_int num_buckets - 1))"


text \<open>
  The argument of \<open>.long()\<close> in the large branch: a name for the proofs below.
\<close>

definition large_arg :: "int \<Rightarrow> int \<Rightarrow> int \<Rightarrow> real" where
  "large_arg num_buckets max_distance n =
     ln (real_of_int n / real_of_int (num_buckets div 2))
       / ln (real_of_int max_distance / real_of_int (num_buckets div 2))
       * real_of_int (num_buckets - num_buckets div 2)"

section \<open>Modules and their constructors\<close>

text \<open>
  Every \<open>nn.Module\<close> instance is a Python object with an identity. A constructor takes
  the next free object identity and returns the object with the next free identity
  after it, or the exception it raised: two references are the same object exactly when
  they carry the same identity. The parameter \<open>dim\<close> of the source is \<open>dim'\<close> here.
\<close>

type_synonym oid = nat

type_synonym 'a ctor = "oid \<Rightarrow> error + ('a \<times> oid)"

definition returnS :: "'a \<Rightarrow> 'a ctor" where
  "returnS x s = Inr (x, s)"

definition raiseS :: "error \<Rightarrow> 'a ctor" where
  "raiseS e s = Inl e"

definition bindS :: "'a ctor \<Rightarrow> ('a \<Rightarrow> 'b ctor) \<Rightarrow> 'b ctor" where
  "bindS m f s = (case m s of Inl e \<Rightarrow> Inl e | Inr (x, s') \<Rightarrow> f x s')"

definition alloc :: "oid ctor" where
  "alloc s = Inr (s, Suc s)"

subsection \<open>Library modules\<close>

text \<open>
  The classes of torch the source instantiates, with the fields that fix their shapes.
  Their weights are set by a random initialiser at construction and are not part of the
  record. \<open>torch.empty\<close> raises \<open>RuntimeError\<close> on a negative size, \<open>nn.Dropout\<close> raises
  \<open>ValueError\<close> on a probability outside \<open>[0, 1]\<close>.
\<close>

datatype linear_class =
    nn_Linear      \<comment> \<open>\<open>torch.nn.Linear\<close>\<close>
  | nnqd_Linear    \<comment> \<open>\<open>torch.nn.quantized.dynamic.Linear\<close>, what \<open>quantize_dynamic\<close> swaps in\<close>

record Linear =
  lin_id :: oid
  lin_class :: linear_class
  in_features :: int
  out_features :: int
  has_bias :: bool

record LayerNorm =
  ln_id :: oid
  normalized_shape :: int

record Embedding =
  emb_id :: oid
  num_embeddings :: int
  embedding_dim :: int

record Dropout =
  drop_id :: oid
  drop_p :: real

definition Linear_init :: "int \<Rightarrow> int \<Rightarrow> bool \<Rightarrow> Linear ctor" where
  "Linear_init in_f out_f bias =
     bindS alloc (\<lambda>self.
       if in_f < 0 \<or> out_f < 0 then raiseS RuntimeError
       else returnS \<lparr>lin_id = self, lin_class = nn_Linear, in_features = in_f,
                      out_features = out_f, has_bias = bias\<rparr>)"

definition LayerNorm_init :: "int \<Rightarrow> LayerNorm ctor" where
  "LayerNorm_init dim' =
     bindS alloc (\<lambda>self.
       if dim' < 0 then raiseS RuntimeError
       else returnS \<lparr>ln_id = self, normalized_shape = dim'\<rparr>)"

definition Embedding_init :: "int \<Rightarrow> int \<Rightarrow> Embedding ctor" where
  "Embedding_init n d =
     bindS alloc (\<lambda>self.
       if n < 0 \<or> d < 0 then raiseS RuntimeError
       else returnS \<lparr>emb_id = self, num_embeddings = n, embedding_dim = d\<rparr>)"

definition Dropout_init :: "real \<Rightarrow> Dropout ctor" where
  "Dropout_init p =
     bindS alloc (\<lambda>self.
       if p < 0 \<or> 1 < p then raiseS ValueError
       else returnS \<lparr>drop_id = self, drop_p = p\<rparr>)"

subsection \<open>The classes of the source\<close>

record SquaredRelu =
  sq_id :: oid

definition SquaredRelu_init :: "SquaredRelu ctor" where
  "SquaredRelu_init = bindS alloc (\<lambda>self. returnS \<lparr>sq_id = self\<rparr>)"

text \<open>
  \<open>FeedForward.net\<close> is an \<open>nn.Sequential\<close> of four modules; \<open>net_id\<close> is the identity of
  the \<open>Sequential\<close>, created after its arguments. \<open>mult\<close> is only ever the default \<open>4\<close>,
  an integer, so \<open>int(dim * mult)\<close> is the product.
\<close>

record FeedForward =
  ff_id :: oid
  net_0 :: Linear
  net_1 :: SquaredRelu
  net_2 :: Dropout
  net_3 :: Linear
  net_id :: oid

definition FeedForward_init :: "int \<Rightarrow> int \<Rightarrow> real \<Rightarrow> FeedForward ctor" where
  "FeedForward_init dim' mult dropout =
     bindS alloc (\<lambda>self.
     let inner_dim = dim' * mult in
     bindS (Linear_init dim' (inner_dim * 2) True) (\<lambda>l0.
     bindS SquaredRelu_init (\<lambda>act.
     bindS (Dropout_init dropout) (\<lambda>dr.
     bindS (Linear_init (inner_dim * 2) dim' True) (\<lambda>l3.
     bindS alloc (\<lambda>net.
     returnS \<lparr>ff_id = self, net_0 = l0, net_1 = act, net_2 = dr, net_3 = l3,
              net_id = net\<rparr>))))))"

record T5RelativePositionBias =
  rpb_id :: oid
  rpb_scale :: real
  num_buckets :: int
  max_distance :: int
  relative_attention_bias :: Embedding

definition T5RelativePositionBias_init ::
  "real \<Rightarrow> int \<Rightarrow> int \<Rightarrow> int \<Rightarrow> T5RelativePositionBias ctor" where
  "T5RelativePositionBias_init scale nb md heads =
     bindS alloc (\<lambda>self.
     bindS (Embedding_init nb heads) (\<lambda>emb.
     returnS \<lparr>rpb_id = self, rpb_scale = scale, num_buckets = nb, max_distance = md,
              relative_attention_bias = emb\<rparr>))"

text \<open>
  \<open>dim_head ** -0.5\<close> raises \<open>ZeroDivisionError\<close> on \<open>dim_head = 0\<close>. On a negative
  \<open>dim_head\<close> Python returns a complex number, and the constructor then raises at
  \<open>to_q\<close> or \<open>to_kv\<close> (a negative size), so that the value of \<open>powr\<close> there is never part of
  a constructed module.
\<close>

definition pow_float :: "int \<Rightarrow> real \<Rightarrow> error + real" where
  "pow_float b e = (if b = 0 \<and> e < 0 then Inl ZeroDivisionError
                    else Inr (real_of_int b powr e))"

definition liftE :: "error + 'a \<Rightarrow> 'a ctor" where
  "liftE m s = (case m of Inl e \<Rightarrow> Inl e | Inr x \<Rightarrow> Inr (x, s))"

record Attention =
  att_id :: oid
  att_heads :: int
  att_scale :: real
  att_dropout :: Dropout
  to_q :: Linear
  to_kv :: Linear
  to_out :: Linear
  rel_pos_bias :: T5RelativePositionBias

definition Attention_init :: "int \<Rightarrow> int \<Rightarrow> int \<Rightarrow> real \<Rightarrow> Attention ctor" where
  "Attention_init dim' heads dim_head dropout =
     bindS alloc (\<lambda>self.
     bindS (liftE (pow_float dim_head (- 0.5))) (\<lambda>scale.
     let inner_dim = heads * dim_head in
     bindS (Dropout_init dropout) (\<lambda>dr.
     bindS (Linear_init dim' inner_dim False) (\<lambda>q.
     bindS (Linear_init dim' (dim_head * 2) False) (\<lambda>kv.
     bindS (Linear_init inner_dim dim' True) (\<lambda>out.
     bindS (liftE (pow_float dim_head 0.5)) (\<lambda>bias_scale.
     bindS (T5RelativePositionBias_init bias_scale 32 128 heads) (\<lambda>rpb.
     returnS \<lparr>att_id = self, att_heads = heads, att_scale = scale, att_dropout = dr,
              to_q = q, to_kv = kv, to_out = out, rel_pos_bias = rpb\<rparr>))))))))"

text \<open>
  The \<open>fn\<close> that a \<open>PreNorm\<close> wraps is, in this source, the attention or the feedforward
  block; the \<open>fn\<close> that a \<open>Residual\<close> wraps is a \<open>PreNorm\<close>.
\<close>

datatype sublayer = AttentionFn Attention | FeedForwardFn FeedForward

record PreNorm =
  pn_id :: oid
  pn_norm :: LayerNorm
  pn_fn :: sublayer

definition PreNorm_init :: "int \<Rightarrow> sublayer \<Rightarrow> PreNorm ctor" where
  "PreNorm_init dim' fn =
     bindS alloc (\<lambda>self.
     bindS (LayerNorm_init dim') (\<lambda>n.
     returnS \<lparr>pn_id = self, pn_norm = n, pn_fn = fn\<rparr>))"

record Residual =
  res_id :: oid
  res_fn :: PreNorm

definition Residual_init :: "PreNorm \<Rightarrow> Residual ctor" where
  "Residual_init fn = bindS alloc (\<lambda>self. returnS \<lparr>res_id = self, res_fn = fn\<rparr>)"


subsection \<open>Dynamic quantization\<close>

text \<open>
  \<open>quantize_dynamic(module, {nn.Linear}, dtype = torch.qint8)\<close> of torch copies the module
  and, at every depth of the copy, replaces each submodule of class \<open>nn.Linear\<close> by a
  dynamically quantized one; submodules of the other classes are kept, and the sharing of
  submodules is kept. The source drops its only reference to the original right after
  the call (it rebinds \<open>attn\<close> and \<open>ffn\<close>, it deletes \<open>model\<close>), so the copy takes the place of
  the original, identities included.
\<close>

definition quantize_dynamic_Linear :: "Linear \<Rightarrow> Linear" where
  "quantize_dynamic_Linear l =
     (if lin_class l = nn_Linear then l\<lparr>lin_class := nnqd_Linear\<rparr> else l)"

definition quantize_dynamic_Attention :: "Attention \<Rightarrow> Attention" where
  "quantize_dynamic_Attention a =
     a\<lparr>to_q := quantize_dynamic_Linear (to_q a),
       to_kv := quantize_dynamic_Linear (to_kv a),
       to_out := quantize_dynamic_Linear (to_out a)\<rparr>"

definition quantize_dynamic_FeedForward :: "FeedForward \<Rightarrow> FeedForward" where
  "quantize_dynamic_FeedForward f =
     f\<lparr>net_0 := quantize_dynamic_Linear (net_0 f),
       net_3 := quantize_dynamic_Linear (net_3 f)\<rparr>"

fun quantize_dynamic_sublayer :: "sublayer \<Rightarrow> sublayer" where
  "quantize_dynamic_sublayer (AttentionFn a) = AttentionFn (quantize_dynamic_Attention a)"
| "quantize_dynamic_sublayer (FeedForwardFn f) = FeedForwardFn (quantize_dynamic_FeedForward f)"

definition quantize_dynamic_PreNorm :: "PreNorm \<Rightarrow> PreNorm" where
  "quantize_dynamic_PreNorm pn = pn\<lparr>pn_fn := quantize_dynamic_sublayer (pn_fn pn)\<rparr>"

definition quantize_dynamic_Residual :: "Residual \<Rightarrow> Residual" where
  "quantize_dynamic_Residual r = r\<lparr>res_fn := quantize_dynamic_PreNorm (res_fn r)\<rparr>"

subsection \<open>Transformer\<close>

text \<open>
  One entry of \<open>Transformer.layers\<close>: the inner \<open>nn.ModuleList\<close> of the two wrapped blocks.
\<close>

record Layer =
  layer_id :: oid
  layer_attn :: Residual
  layer_ff :: Residual

text \<open>
  The loop \<open>for _ in range(depth)\<close>: \<open>layer_round\<close> is its body, which builds the entry
  it appends, and \<open>layers_loop\<close> runs it for the number of rounds left; \<open>acc\<close> is
  \<open>self.layers\<close> so far. \<open>attn\<close> and \<open>ffn\<close> are the same two objects in every round.
\<close>

definition layer_round :: "int \<Rightarrow> sublayer \<Rightarrow> sublayer \<Rightarrow> Layer ctor" where
  "layer_round dim' attn ffn =
     bindS (PreNorm_init dim' attn) (\<lambda>pa.
     bindS (Residual_init pa) (\<lambda>ra.
     bindS (PreNorm_init dim' ffn) (\<lambda>pf.
     bindS (Residual_init pf) (\<lambda>rf.
     bindS alloc (\<lambda>ml.
     returnS \<lparr>layer_id = ml, layer_attn = ra, layer_ff = rf\<rparr>)))))"

fun layers_loop :: "nat \<Rightarrow> int \<Rightarrow> sublayer \<Rightarrow> sublayer \<Rightarrow> Layer list \<Rightarrow> Layer list ctor" where
  "layers_loop 0 dim' attn ffn acc = returnS acc"
| "layers_loop (Suc k) dim' attn ffn acc =
     bindS (layer_round dim' attn ffn) (\<lambda>l. layers_loop k dim' attn ffn (acc @ [l]))"

record Transformer =
  tr_id :: oid
  layers_id :: oid
  layers :: "Layer list"

definition Transformer_init ::
  "int \<Rightarrow> int \<Rightarrow> int \<Rightarrow> int \<Rightarrow> real \<Rightarrow> bool \<Rightarrow> Transformer ctor" where
  "Transformer_init dim' depth heads dim_head dropout quantized =
     bindS alloc (\<lambda>self.
     bindS alloc (\<lambda>ml.
     bindS (Attention_init dim' heads dim_head dropout) (\<lambda>attn.
     bindS (FeedForward_init dim' 4 dropout) (\<lambda>ffn.
     let attn = (if quantized then quantize_dynamic_Attention attn else attn);
         ffn = (if quantized then quantize_dynamic_FeedForward ffn else ffn) in
     bindS (layers_loop (nat depth) dim' (AttentionFn attn) (FeedForwardFn ffn) []) (\<lambda>ls.
     returnS \<lparr>tr_id = self, layers_id = ml, layers = ls\<rparr>)))))"

definition quantize_dynamic_Layer :: "Layer \<Rightarrow> Layer" where
  "quantize_dynamic_Layer l =
     l\<lparr>layer_attn := quantize_dynamic_Residual (layer_attn l),
       layer_ff := quantize_dynamic_Residual (layer_ff l)\<rparr>"

definition quantize_dynamic_Transformer :: "Transformer \<Rightarrow> Transformer" where
  "quantize_dynamic_Transformer t = t\<lparr>layers := map quantize_dynamic_Layer (layers t)\<rparr>"

subsection \<open>LaMDA\<close>

text \<open>
  \<open>LaMDA.to_logits\<close> is an \<open>nn.Sequential\<close> of a \<open>LayerNorm\<close> and a \<open>Linear\<close>. The arguments of
  \<open>LaMDA.__init__\<close> are keyword-only; they are in the order of its signature here. The
  call of \<open>Transformer\<close> passes \<open>dim, depth, dim_head, heads\<close> by position.
\<close>

record LaMDA =
  lamda_id :: oid
  lamda_num_tokens :: int
  lamda_dim :: int
  token_emb :: Embedding
  transformer :: Transformer
  to_logits_0 :: LayerNorm
  to_logits_1 :: Linear
  to_logits_id :: oid

definition LaMDA_init :: "int \<Rightarrow> int \<Rightarrow> int \<Rightarrow> int \<Rightarrow> int \<Rightarrow> bool \<Rightarrow> LaMDA ctor" where
  "LaMDA_init num_tokens dim' depth dim_head heads quantized_transformer =
     bindS alloc (\<lambda>self.
     bindS (Embedding_init num_tokens dim') (\<lambda>emb.
     bindS (Transformer_init dim' depth dim_head heads 0 quantized_transformer) (\<lambda>tr.
     bindS (LayerNorm_init dim') (\<lambda>n.
     bindS (Linear_init dim' num_tokens True) (\<lambda>lin.
     bindS alloc (\<lambda>sq.
     returnS \<lparr>lamda_id = self, lamda_num_tokens = num_tokens, lamda_dim = dim',
              token_emb = emb, transformer = tr, to_logits_0 = n, to_logits_1 = lin,
              to_logits_id = sq\<rparr>))))))"

definition quantize_dynamic_LaMDA :: "LaMDA \<Rightarrow> LaMDA" where
  "quantize_dynamic_LaMDA m =
     m\<lparr>transformer := quantize_dynamic_Transformer (transformer m),
       to_logits_1 := quantize_dynamic_Linear (to_logits_1 m)\<rparr>"

text \<open>
  \<open>CFG\<close> is imported from \<open>lamda_pytorch.config.config\<close>, which is not part of the source
  at hand: the five values \<open>lamda_model\<close> reads from it are a parameter.
\<close>

record CFG =
  cfg_num_tokens :: int
  cfg_dim :: int
  cfg_depth :: int
  cfg_dim_head :: int
  cfg_heads :: int

definition lamda_model :: "CFG \<Rightarrow> bool \<Rightarrow> bool \<Rightarrow> LaMDA ctor" where
  "lamda_model cfg quantized_logits quantized_transformer =
     bindS (LaMDA_init (cfg_num_tokens cfg) (cfg_dim cfg) (cfg_depth cfg) (cfg_dim_head cfg)
              (cfg_heads cfg) quantized_transformer) (\<lambda>model.
     if quantized_logits then returnS (quantize_dynamic_LaMDA model)
     else returnS model)"


section \<open>The forward pass, on shapes\<close>

text \<open>
  A float tensor is its shape; an integer tensor is its shape and its entries in row-major
  order. Each operation returns the shape of its result, or the exception that torch or
  einops raises when the shapes do not fit.
\<close>

type_synonym shape = "nat list"

type_synonym int_tensor = "shape \<times> int list"

text \<open>Two sizes that meet in a broadcast or under one letter of an \<open>einsum\<close>.\<close>

definition bdim :: "nat \<Rightarrow> nat \<Rightarrow> error + nat" where
  "bdim a b = (if a = b then Inr a else if a = 1 then Inr b else if b = 1 then Inr a
               else Inl RuntimeError)"

fun broadcast_rev :: "shape \<Rightarrow> shape \<Rightarrow> error + shape" where
  "broadcast_rev [] ys = Inr ys"
| "broadcast_rev (x # xs) [] = Inr (x # xs)"
| "broadcast_rev (x # xs) (y # ys) =
     bind (bdim x y) (\<lambda>d. bind (broadcast_rev xs ys) (\<lambda>r. Inr (d # r)))"

text \<open>The shape of \<open>a + b\<close>: the sizes are aligned from the last axis.\<close>

definition broadcast :: "shape \<Rightarrow> shape \<Rightarrow> error + shape" where
  "broadcast a b = bind (broadcast_rev (rev a) (rev b)) (\<lambda>r. Inr (rev r))"

fun mapE :: "('a \<Rightarrow> error + 'b) \<Rightarrow> 'a list \<Rightarrow> error + 'b list" where
  "mapE f [] = Inr []"
| "mapE f (x # xs) = bind (f x) (\<lambda>y. bind (mapE f xs) (\<lambda>ys. Inr (y # ys)))"

definition Linear_forward :: "Linear \<Rightarrow> shape \<Rightarrow> error + shape" where
  "Linear_forward l x =
     (case rev x of
        [] \<Rightarrow> Inl RuntimeError
      | d # rest \<Rightarrow>
          if int d = in_features l then Inr (rev rest @ [nat (out_features l)])
          else Inl RuntimeError)"

definition LayerNorm_forward :: "LayerNorm \<Rightarrow> shape \<Rightarrow> error + shape" where
  "LayerNorm_forward n x =
     (case rev x of
        [] \<Rightarrow> Inl RuntimeError
      | d # rest \<Rightarrow> if int d = normalized_shape n then Inr x else Inl RuntimeError)"

definition Embedding_forward :: "Embedding \<Rightarrow> int_tensor \<Rightarrow> error + shape" where
  "Embedding_forward emb x =
     (case x of (sh, vals) \<Rightarrow>
        if list_all (\<lambda>v. 0 \<le> v \<and> v < num_embeddings emb) vals
        then Inr (sh @ [nat (embedding_dim emb)])
        else Inl IndexError)"

text \<open>
  \<open>x.chunk(2, dim = -1)\<close>: pieces of size \<open>ceil(c / 2)\<close> along the last axis, so one piece
  only when \<open>c = 1\<close>, and two empty pieces when \<open>c = 0\<close>.
\<close>

definition chunk2 :: "shape \<Rightarrow> error + shape list" where
  "chunk2 x =
     (case rev x of
        [] \<Rightarrow> Inl RuntimeError
      | c # rest \<Rightarrow>
          if c = 0 then Inr [x, x]
          else let split_size = (c + 1) div 2 in
               if split_size < c
               then Inr [rev rest @ [split_size], rev rest @ [c - split_size]]
               else Inr [rev rest @ [c]])"

text \<open>\<open>rearrange(q, 'b n (h d) -> b h n d', h = h)\<close>\<close>

definition rearrange_b_n_hd :: "shape \<Rightarrow> int \<Rightarrow> error + shape" where
  "rearrange_b_n_hd x h =
     (case x of
        [b, n, c] \<Rightarrow>
          if 0 < h \<and> c mod nat h = 0 then Inr [b, nat h, n, c div nat h]
          else Inl EinopsError
      | _ \<Rightarrow> Inl EinopsError)"

text \<open>\<open>rearrange(out, 'b h n d -> b n (h d)')\<close>\<close>

definition rearrange_b_h_n_d :: "shape \<Rightarrow> error + shape" where
  "rearrange_b_h_n_d x =
     (case x of [b, h, n, d] \<Rightarrow> Inr [b, n, h * d] | _ \<Rightarrow> Inl EinopsError)"

text \<open>\<open>rearrange(values, 'i j h -> () h i j')\<close>\<close>

definition rearrange_i_j_h :: "shape \<Rightarrow> error + shape" where
  "rearrange_i_j_h x =
     (case x of [i, j, h] \<Rightarrow> Inr [1, h, i, j] | _ \<Rightarrow> Inl EinopsError)"

text \<open>\<open>einsum('b h i d, b j d -> b h i j', q, k)\<close>\<close>

definition einsum_bhid_bjd :: "shape \<Rightarrow> shape \<Rightarrow> error + shape" where
  "einsum_bhid_bjd q k =
     (case (q, k) of
        ([b, h, i, d], [b', j, d']) \<Rightarrow>
          bind (bdim b b') (\<lambda>b. bind (bdim d d') (\<lambda>_. Inr [b, h, i, j]))
      | _ \<Rightarrow> Inl RuntimeError)"

text \<open>\<open>einsum('b h i j, b j d -> b h i d', attn, v)\<close>\<close>

definition einsum_bhij_bjd :: "shape \<Rightarrow> shape \<Rightarrow> error + shape" where
  "einsum_bhij_bjd attn v =
     (case (attn, v) of
        ([b, h, i, j], [b', j', d]) \<Rightarrow>
          bind (bdim b b') (\<lambda>b. bind (bdim j j') (\<lambda>_. Inr [b, h, i, d]))
      | _ \<Rightarrow> Inl RuntimeError)"

text \<open>
  \<open>rel_pos\<close> of \<open>T5RelativePositionBias.forward\<close>: \<open>k_pos - q_pos\<close> for every query position
  (rows) and key position (columns).
\<close>

definition rel_pos :: "nat \<Rightarrow> nat \<Rightarrow> int list" where
  "rel_pos i j = concat (map (\<lambda>q. map (\<lambda>k. int k - int q) [0..<j]) [0..<i])"

text \<open>
  The bucket function on the entries of a tensor. \<open>math.log\<close> is evaluated once, whatever
  the tensor holds, so that what it raises is raised on an empty tensor too.
\<close>

definition relative_position_bucket_tensor :: "int list \<Rightarrow> int \<Rightarrow> int \<Rightarrow> error + int list" where
  "relative_position_bucket_tensor relative_position nb md =
     bind (math_log_ratio md (nb div 2)) (\<lambda>_.
       mapE (\<lambda>r. relative_position_bucket r nb md) relative_position)"

definition T5RelativePositionBias_forward ::
  "T5RelativePositionBias \<Rightarrow> shape \<Rightarrow> error + shape" where
  "T5RelativePositionBias_forward m qk_dots =
     (case rev qk_dots of
        j # i # _ \<Rightarrow>
          bind (relative_position_bucket_tensor (rel_pos i j) (num_buckets m) (max_distance m))
            (\<lambda>rp_bucket.
          bind (Embedding_forward (relative_attention_bias m) ([i, j], rp_bucket)) (\<lambda>values.
          bind (rearrange_i_j_h values) (\<lambda>bias.
          broadcast qk_dots bias)))
      | _ \<Rightarrow> Inl ValueError)"

text \<open>
  Lines 131 to 134 of \<open>Attention.forward\<close>: the shapes of \<open>q\<close>, \<open>k\<close> and \<open>v\<close>. The
  product \<open>q * self.scale\<close> is by a number and keeps the shape.
\<close>

definition Attention_qkv :: "Attention \<Rightarrow> shape \<Rightarrow> error + shape \<times> shape \<times> shape" where
  "Attention_qkv a x =
     bind (Linear_forward (to_q a) x) (\<lambda>q.
     bind (Linear_forward (to_kv a) x) (\<lambda>kv.
     bind (chunk2 kv) (\<lambda>kvs.
     case kvs of
       [k, v] \<Rightarrow> bind (rearrange_b_n_hd q (att_heads a)) (\<lambda>q. Inr (q, k, v))
     | _ \<Rightarrow> Inl ValueError)))"

text \<open>
  The rest of \<open>Attention.forward\<close>. The causal mask is built from the last two sizes of
  \<open>sim\<close>, so \<open>masked_fill\<close> keeps the shape, as \<open>softmax\<close> and the dropout do.
\<close>

definition Attention_forward :: "Attention \<Rightarrow> shape \<Rightarrow> error + shape" where
  "Attention_forward a x =
     bind (Attention_qkv a x) (\<lambda>(q, k, v).
     bind (einsum_bhid_bjd q k) (\<lambda>sim.
     bind (T5RelativePositionBias_forward (rel_pos_bias a) sim) (\<lambda>sim.
     let attn = sim in
     bind (einsum_bhij_bjd attn v) (\<lambda>out.
     bind (rearrange_b_h_n_d out) (\<lambda>out.
     Linear_forward (to_out a) out)))))"

text \<open>\<open>SquaredRelu\<close> and \<open>nn.Dropout\<close> are elementwise: they keep the shape.\<close>

definition FeedForward_forward :: "FeedForward \<Rightarrow> shape \<Rightarrow> error + shape" where
  "FeedForward_forward f x =
     bind (Linear_forward (net_0 f) x) (\<lambda>h.
     Linear_forward (net_3 f) h)"

fun sublayer_forward :: "sublayer \<Rightarrow> shape \<Rightarrow> error + shape" where
  "sublayer_forward (AttentionFn a) x = Attention_forward a x"
| "sublayer_forward (FeedForwardFn f) x = FeedForward_forward f x"

definition PreNorm_forward :: "PreNorm \<Rightarrow> shape \<Rightarrow> error + shape" where
  "PreNorm_forward pn x =
     bind (LayerNorm_forward (pn_norm pn) x) (\<lambda>y. sublayer_forward (pn_fn pn) y)"

definition Residual_forward :: "Residual \<Rightarrow> shape \<Rightarrow> error + shape" where
  "Residual_forward r x = bind (PreNorm_forward (res_fn r) x) (\<lambda>y. broadcast y x)"

fun layers_forward :: "Layer list \<Rightarrow> shape \<Rightarrow> error + shape" where
  "layers_forward [] x = Inr x"
| "layers_forward (l # ls) x =
     bind (Residual_forward (layer_attn l) x) (\<lambda>x.
     bind (Residual_forward (layer_ff l) x) (\<lambda>x.
     layers_forward ls x))"

definition Transformer_forward :: "Transformer \<Rightarrow> shape \<Rightarrow> error + shape" where
  "Transformer_forward t x = layers_forward (layers t) x"

definition LaMDA_forward :: "LaMDA \<Rightarrow> int_tensor \<Rightarrow> error + shape" where
  "LaMDA_forward m x =
     bind (Embedding_forward (token_emb m) x) (\<lambda>x.
     bind (Transformer_forward (transformer m) x) (\<lambda>x.
     bind (LayerNorm_forward (to_logits_0 m) x) (\<lambda>x.
     Linear_forward (to_logits_1 m) x)))"

section \<open>Values: the causal mask, the activation, the feedforward net\<close>

text \<open>
  \<open>torch.ones((i, j)).triu(j - i + 1)\<close> at row \<open>q\<close> and column \<open>k\<close>: \<open>triu(d)\<close> keeps the
  entries with \<open>k - q \<ge> d\<close>.
\<close>

definition causal_mask :: "nat \<Rightarrow> nat \<Rightarrow> nat \<Rightarrow> nat \<Rightarrow> bool" where
  "causal_mask i j q k = (int j - int i + 1 \<le> int k - int q)"

text \<open>\<open>F.relu(x) ** 2\<close> on a feature vector.\<close>

definition SquaredRelu_forward :: "real list \<Rightarrow> real list" where
  "SquaredRelu_forward x = map (\<lambda>v. (max v 0)\<^sup>2) x"

text \<open>
  \<open>nn.Linear\<close> on one feature vector, with its weight (one row per output feature) and
  its bias; \<open>nn.Dropout\<close> with probability \<open>0\<close>, the only one the source ever passes, is
  the identity. The four layers of \<open>FeedForward.net\<close> in sequence, for any weights.
\<close>

definition Linear_apply :: "real list list \<Rightarrow> real list \<Rightarrow> real list \<Rightarrow> real list" where
  "Linear_apply weight bias x =
     map (\<lambda>(row, b). sum_list (map (\<lambda>(w, v). w * v) (zip row x)) + b) (zip weight bias)"

definition FeedForward_net ::
  "real list list \<Rightarrow> real list \<Rightarrow> real list list \<Rightarrow> real list \<Rightarrow> real list \<Rightarrow> real list" where
  "FeedForward_net w0 b0 w3 b3 x =
     Linear_apply w3 b3 (SquaredRelu_forward (Linear_apply w0 b0 x))"

text \<open>
  The activation as the specification words it: squared ReLU of the first half of the
  features, the second half unused.
\<close>

definition spec_first_half_activation :: "real list \<Rightarrow> real list" where
  "spec_first_half_activation x = map (\<lambda>v. (max v 0)\<^sup>2) (take (length x div 2) x)"

section \<open>What the constructors return\<close>

text \<open>
  The objects that the constructors return when they do not raise, written out with the
  identities counted from the first free one. They are names for the lemmas below,
  which prove them equal to the results of the constructors above.
\<close>

definition Attention_obj :: "int \<Rightarrow> int \<Rightarrow> int \<Rightarrow> real \<Rightarrow> nat \<Rightarrow> Attention" where
  "Attention_obj d h dh p s =
     \<lparr>att_id = s, att_heads = h, att_scale = real_of_int dh powr (- 0.5),
           att_dropout = \<lparr>drop_id = s + 1, drop_p = p\<rparr>,
           to_q = \<lparr>lin_id = s + 2, lin_class = nn_Linear, in_features = d,
                    out_features = h * dh, has_bias = False\<rparr>,
           to_kv = \<lparr>lin_id = s + 3, lin_class = nn_Linear, in_features = d,
                     out_features = dh * 2, has_bias = False\<rparr>,
           to_out = \<lparr>lin_id = s + 4, lin_class = nn_Linear, in_features = h * dh,
                      out_features = d, has_bias = True\<rparr>,
           rel_pos_bias = \<lparr>rpb_id = s + 5, rpb_scale = real_of_int dh powr 0.5,
                            num_buckets = 32, max_distance = 128,
                            relative_attention_bias =
                              \<lparr>emb_id = s + 6, num_embeddings = 32, embedding_dim = h\<rparr>\<rparr>\<rparr>"

definition FeedForward_obj :: "int \<Rightarrow> int \<Rightarrow> real \<Rightarrow> nat \<Rightarrow> FeedForward" where
  "FeedForward_obj d mult p s =
     \<lparr>ff_id = s,
      net_0 = \<lparr>lin_id = s + 1, lin_class = nn_Linear, in_features = d,
                out_features = d * mult * 2, has_bias = True\<rparr>,
      net_1 = \<lparr>sq_id = s + 2\<rparr>,
      net_2 = \<lparr>drop_id = s + 3, drop_p = p\<rparr>,
      net_3 = \<lparr>lin_id = s + 4, lin_class = nn_Linear, in_features = d * mult * 2,
                out_features = d, has_bias = True\<rparr>,
      net_id = s + 5\<rparr>"

definition Layer_obj :: "int \<Rightarrow> sublayer \<Rightarrow> sublayer \<Rightarrow> nat \<Rightarrow> Layer" where
  "Layer_obj d attn ffn s =
     \<lparr>layer_id = s + 6,
      layer_attn = \<lparr>res_id = s + 2,
                     res_fn = \<lparr>pn_id = s, pn_norm = \<lparr>ln_id = s + 1, normalized_shape = d\<rparr>,
                                pn_fn = attn\<rparr>\<rparr>,
      layer_ff = \<lparr>res_id = s + 5,
                   res_fn = \<lparr>pn_id = s + 3, pn_norm = \<lparr>ln_id = s + 4, normalized_shape = d\<rparr>,
                              pn_fn = ffn\<rparr>\<rparr>\<rparr>"

definition Transformer_attn :: "int \<Rightarrow> int \<Rightarrow> int \<Rightarrow> real \<Rightarrow> bool \<Rightarrow> nat \<Rightarrow> Attention" where
  "Transformer_attn d h dh p q s =
     (if q then quantize_dynamic_Attention (Attention_obj d h dh p (s + 2))
      else Attention_obj d h dh p (s + 2))"

definition Transformer_ffn :: "int \<Rightarrow> real \<Rightarrow> bool \<Rightarrow> nat \<Rightarrow> FeedForward" where
  "Transformer_ffn d p q s =
     (if q then quantize_dynamic_FeedForward (FeedForward_obj d 4 p (s + 9))
      else FeedForward_obj d 4 p (s + 9))"

definition Transformer_obj :: "int \<Rightarrow> int \<Rightarrow> int \<Rightarrow> int \<Rightarrow> real \<Rightarrow> bool \<Rightarrow> nat \<Rightarrow> Transformer" where
  "Transformer_obj d depth h dh p q s =
     \<lparr>tr_id = s, layers_id = s + 1,
      layers = map (\<lambda>r. Layer_obj d (AttentionFn (Transformer_attn d h dh p q s))
                           (FeedForwardFn (Transformer_ffn d p q s)) (s + 15 + 7 * r))
                 [0..<nat depth]\<rparr>"

definition LaMDA_obj :: "int \<Rightarrow> int \<Rightarrow> int \<Rightarrow> int \<Rightarrow> int \<Rightarrow> bool \<Rightarrow> nat \<Rightarrow> LaMDA" where
  "LaMDA_obj nt d depth dh h qt s =
     \<lparr>lamda_id = s, lamda_num_tokens = nt, lamda_dim = d,
      token_emb = \<lparr>emb_id = s + 1, num_embeddings = nt, embedding_dim = d\<rparr>,
      transformer = Transformer_obj d depth dh h 0 qt (s + 2),
      to_logits_0 = \<lparr>ln_id = s + 17 + 7 * nat depth, normalized_shape = d\<rparr>,
      to_logits_1 = \<lparr>lin_id = s + 18 + 7 * nat depth, lin_class = nn_Linear,
                      in_features = d, out_features = nt, has_bias = True\<rparr>,
      to_logits_id = s + 19 + 7 * nat depth\<rparr>"

section \<open>The bucket function\<close>

lemma long_nonneg: "0 \<le> x \<Longrightarrow> long x = \<lfloor>x\<rfloor>"
  by (simp add: long_def)

lemma long_mono_nonneg: "0 \<le> x \<Longrightarrow> x \<le> y \<Longrightarrow> long x \<le> long y"
  by (simp add: long_def floor_mono)

lemma math_log_ratio_ok:
  "0 < me \<Longrightarrow> me < md \<Longrightarrow>
   math_log_ratio md me = Inr (ln (real_of_int md / real_of_int me))"
proof -
  assume a: "0 < me" "me < md"
  then have "0 < real_of_int md / real_of_int me" by simp
  then have "\<not> real_of_int md / real_of_int me \<le> 0" by linarith
  moreover have "me \<noteq> 0" using a by simp
  ultimately show ?thesis unfolding math_log_ratio_def by (simp only: if_False)
qed

lemma log_ratio_pos:
  "0 < me \<Longrightarrow> me < md \<Longrightarrow>
   0 < ln (real_of_int md / real_of_int me)"
  by (simp add: ln_gt_zero)

lemma large_arg_nonneg:
  assumes "2 \<le> nb" "nb div 2 < md" "nb div 2 \<le> n"
  shows "0 \<le> large_arg nb md n"
proof -
  have me: "0 < nb div 2" using assms(1) by simp
  have "1 \<le> real_of_int n / real_of_int (nb div 2)" using me assms(3) by simp
  then have a: "0 \<le> ln (real_of_int n / real_of_int (nb div 2))" by simp
  have b: "0 < ln (real_of_int md / real_of_int (nb div 2))"
    using log_ratio_pos [OF me assms(2)] .
  have c: "0 \<le> real_of_int (nb - nb div 2)" using assms(1) by simp
  show ?thesis unfolding large_arg_def using a b c by simp
qed

lemma large_arg_mono:
  assumes "2 \<le> nb" "nb div 2 < md" "nb div 2 \<le> n1" "n1 \<le> n2"
  shows "large_arg nb md n1 \<le> large_arg nb md n2"
proof -
  have me: "0 < nb div 2" using assms(1) by simp
  have "real_of_int n1 / real_of_int (nb div 2) \<le> real_of_int n2 / real_of_int (nb div 2)"
    using me assms(4) by (simp add: divide_right_mono)
  moreover have "0 < real_of_int n1 / real_of_int (nb div 2)" using me assms(3) by simp
  ultimately have a: "ln (real_of_int n1 / real_of_int (nb div 2)) \<le> ln (real_of_int n2 / real_of_int (nb div 2))"
    by (rule ln_mono)
  have b: "0 < ln (real_of_int md / real_of_int (nb div 2))"
    using log_ratio_pos [OF me assms(2)] .
  have c: "0 \<le> real_of_int (nb - nb div 2)" using assms(1) by simp
  show ?thesis unfolding large_arg_def
    by (intro mult_right_mono divide_right_mono a c less_imp_le [OF b])
qed

lemma bucket_eq:
  assumes "2 \<le> nb" "nb div 2 < md"
  shows "relative_position_bucket r nb md =
     Inr (if max (- r) 0 < nb div 2 then max (- r) 0
          else min (nb div 2 + long (large_arg nb md (max (- r) 0))) (nb - 1))"
proof -
  have me: "0 < nb div 2" using assms(1) by simp
  show ?thesis
    unfolding relative_position_bucket_def Let_def
    by (simp add: math_log_ratio_ok [OF me assms(2)] bind_def large_arg_def)
qed

lemma half_even: "even nb \<Longrightarrow> real_of_int nb / 2 = real_of_int (nb div 2)"
  by (metis real_of_int_div dvd_def of_int_numeral) 

lemma spec_large_index_eq:
  assumes "even nb"
  shows "spec_large_index nb md n = real_of_int (nb div 2 + \<lfloor>large_arg nb md n\<rfloor>)"
proof -
  have h: "real_of_int nb / 2 = real_of_int (nb div 2)" using assms by (rule half_even)
  have "real_of_int nb - real_of_int (nb div 2) = real_of_int (nb - nb div 2)" by simp
  then show ?thesis
    unfolding spec_large_index_def large_arg_def h by simp
qed

text \<open>
  Claim C4. Let \<open>num_buckets\<close> be even and at least \<open>2\<close> and \<open>max_distance\<close> exceed
  \<open>num_buckets/2\<close>, and let \<open>n\<close> be the clamped distance \<open>max(-relative_position, 0)\<close>. Then
  the bucket function returns, without raising, the bucket that the specification's
  formula gives: \<open>n\<close> itself when \<open>n < num_buckets/2\<close> (so bucket \<open>0\<close> for \<open>n = 0\<close>), and
  otherwise \<open>num_buckets/2 + floor(log(n/(num_buckets/2)) / log(max_distance/(num_buckets/2))
  * (num_buckets - num_buckets/2))\<close> clamped to at most \<open>num_buckets - 1\<close>; every \<open>n\<close> whose
  computed index reaches \<open>num_buckets\<close> gets bucket \<open>num_buckets - 1\<close>. The arithmetic is
  exact (on the reals).
\<close>

theorem bucket_formula:
  assumes "even nb" "2 \<le> nb" "nb div 2 < md" "n = max (- r) 0"
  shows "\<exists>b. relative_position_bucket r nb md = Inr b \<and>
             real_of_int b = spec_bucket nb md n \<and>
             (real_of_int n < real_of_int nb / 2 \<longrightarrow> b = n) \<and>
             (n = 0 \<longrightarrow> b = 0) \<and>
             (real_of_int nb / 2 \<le> real_of_int n \<and> real_of_int nb \<le> spec_large_index nb md n
                \<longrightarrow> b = nb - 1)"
proof -
  have h: "real_of_int nb / 2 = real_of_int (nb div 2)" using assms(1) by (rule half_even)
  have me: "0 < nb div 2" using assms(2) by simp
  let ?b = "if n < nb div 2 then n else min (nb div 2 + long (large_arg nb md n)) (nb - 1)"
  have eq: "relative_position_bucket r nb md = Inr ?b"
    using bucket_eq [OF assms(2,3), of r] assms(4) by simp
  have small: "real_of_int n < real_of_int nb / 2 \<longleftrightarrow> n < nb div 2"
    unfolding h by simp
  have lg: "\<not> n < nb div 2 \<Longrightarrow> long (large_arg nb md n) = \<lfloor>large_arg nb md n\<rfloor>"
    using large_arg_nonneg [OF assms(2,3), of n] by (simp add: long_nonneg)
  have sp: "real_of_int ?b = spec_bucket nb md n"
  proof (cases "n < nb div 2")
    case True
    then show ?thesis unfolding spec_bucket_def small by simp
  next
    case False
    have "real_of_int (min (nb div 2 + \<lfloor>large_arg nb md n\<rfloor>) (nb - 1))
          = min (spec_large_index nb md n) (real_of_int nb - 1)"
      unfolding spec_large_index_eq [OF assms(1)] by (simp add: min_def)
    then show ?thesis unfolding spec_bucket_def small using False lg by simp
  qed
  have z: "n = 0 \<longrightarrow> ?b = 0" using me by simp
  have sat: "real_of_int nb / 2 \<le> real_of_int n \<and> real_of_int nb \<le> spec_large_index nb md n
                \<longrightarrow> ?b = nb - 1"
  proof (intro impI, elim conjE)
    assume a: "real_of_int nb / 2 \<le> real_of_int n" and b: "real_of_int nb \<le> spec_large_index nb md n"
    from a have nl: "\<not> n < nb div 2" unfolding h by simp
    from b have "nb \<le> nb div 2 + \<lfloor>large_arg nb md n\<rfloor>"
      unfolding spec_large_index_eq [OF assms(1)] by linarith
    then show "?b = nb - 1" using nl lg by simp
  qed
  show ?thesis
    using eq sp z sat small by (intro exI [of _ ?b]) simp
qed

theorem bucket_formula_witness:
  "even (32::int) \<and> (2::int) \<le> 32 \<and> (32::int) div 2 < 128 \<and>
   relative_position_bucket (- 128) 32 128 = Inr 31 \<and>
   spec_bucket 32 128 128 = 31"
proof -
  have l: "ln (8::real) \<noteq> 0" by simp
  have i: "spec_large_index 32 128 128 = 32"
    unfolding spec_large_index_def using l by simp
  have "(128::int) = max (- (- 128)) 0" by simp
  from bucket_formula [of 32 128 128 "- 128", OF _ _ _ this] i
  show ?thesis by auto
qed

text \<open>
  Claim C5. For \<open>num_buckets\<close> even and at least \<open>2\<close> and \<open>max_distance > num_buckets/2\<close>, the
  bucket is monotonic non-decreasing in the clamped distance: for distances
  \<open>0 \<le> n1 \<le> n2\<close> the function returns buckets \<open>b1 \<le> b2\<close>.
\<close>

theorem bucket_monotone:
  assumes "even nb" "2 \<le> nb" "nb div 2 < md" "0 \<le> n1" "n1 \<le> n2"
  shows "\<exists>b1 b2. relative_position_bucket (- n1) nb md = Inr b1 \<and>
                 relative_position_bucket (- n2) nb md = Inr b2 \<and> b1 \<le> b2"
proof -
  let ?b = "\<lambda>n. if n < nb div 2 then n else min (nb div 2 + long (large_arg nb md n)) (nb - 1)"
  have e1: "relative_position_bucket (- n1) nb md = Inr (?b n1)"
    using bucket_eq [OF assms(2,3), of "- n1"] assms(4) by simp
  have e2: "relative_position_bucket (- n2) nb md = Inr (?b n2)"
    using bucket_eq [OF assms(2,3), of "- n2"] assms(4,5) by simp
  have me: "0 < nb div 2" using assms(2) by simp
  have le: "?b n1 \<le> ?b n2"
  proof (cases "n2 < nb div 2")
    case True
    then show ?thesis using assms(5) by simp
  next
    case l2: False
    have p2: "0 \<le> long (large_arg nb md n2)"
      using large_arg_nonneg [OF assms(2,3), of n2] l2 by (simp add: long_nonneg)
    show ?thesis
    proof (cases "n1 < nb div 2")
      case True
      then have "n1 \<le> nb div 2 + long (large_arg nb md n2)" using p2 by simp
      moreover have "n1 \<le> nb - 1" using True assms(2) by linarith
      ultimately show ?thesis using True l2 by simp
    next
      case False
      have "long (large_arg nb md n1) \<le> long (large_arg nb md n2)"
        using large_arg_nonneg [OF assms(2,3), of n1] large_arg_mono [OF assms(2,3) _ assms(5)] False
        by (intro long_mono_nonneg) simp_all
      then show ?thesis using False l2 by (simp add: min_def)
    qed
  qed
  show ?thesis using e1 e2 le by blast
qed

theorem bucket_monotone_witness:
  "even (32::int) \<and> (2::int) \<le> 32 \<and> (32::int) div 2 < 128 \<and> (0::int) \<le> 5 \<and> (5::int) \<le> 128 \<and>
   (\<exists>b1 b2. relative_position_bucket (- 5) 32 128 = Inr b1 \<and>
                 relative_position_bucket (- 128) 32 128 = Inr b2 \<and> b1 \<le> b2)"
  using bucket_monotone [of 32 128 5 128] by simp

section \<open>Construction\<close>

lemmas ctor_defs = bindS_def returnS_def raiseS_def alloc_def liftE_def

lemma Linear_init_eq:
  "Linear_init i o' b s =
     (if i < 0 \<or> o' < 0 then Inl RuntimeError
      else Inr (\<lparr>lin_id = s, lin_class = nn_Linear, in_features = i, out_features = o',
                 has_bias = b\<rparr>, Suc s))"
  by (simp add: Linear_init_def ctor_defs)

lemma LayerNorm_init_eq:
  "LayerNorm_init d s =
     (if d < 0 then Inl RuntimeError else Inr (\<lparr>ln_id = s, normalized_shape = d\<rparr>, Suc s))"
  by (simp add: LayerNorm_init_def ctor_defs)

lemma Embedding_init_eq:
  "Embedding_init n d s =
     (if n < 0 \<or> d < 0 then Inl RuntimeError
      else Inr (\<lparr>emb_id = s, num_embeddings = n, embedding_dim = d\<rparr>, Suc s))"
  by (simp add: Embedding_init_def ctor_defs)

lemma Dropout_init_eq:
  "Dropout_init p s =
     (if p < 0 \<or> 1 < p then Inl ValueError else Inr (\<lparr>drop_id = s, drop_p = p\<rparr>, Suc s))"
  by (simp add: Dropout_init_def ctor_defs)

lemma T5RelativePositionBias_init_eq:
  "T5RelativePositionBias_init sc nb md h s =
     (if nb < 0 \<or> h < 0 then Inl RuntimeError
      else Inr (\<lparr>rpb_id = s, rpb_scale = sc, num_buckets = nb, max_distance = md,
                 relative_attention_bias =
                   \<lparr>emb_id = Suc s, num_embeddings = nb, embedding_dim = h\<rparr>\<rparr>, Suc (Suc s)))"
  by (simp add: T5RelativePositionBias_init_def Embedding_init_eq ctor_defs)

lemma FeedForward_init_eq:
  "FeedForward_init d mult p s =
     (if d < 0 \<or> d * mult * 2 < 0 then Inl RuntimeError
      else if p < 0 \<or> 1 < p then Inl ValueError
      else Inr (\<lparr>ff_id = s,
                 net_0 = \<lparr>lin_id = s + 1, lin_class = nn_Linear, in_features = d,
                           out_features = d * mult * 2, has_bias = True\<rparr>,
                 net_1 = \<lparr>sq_id = s + 2\<rparr>,
                 net_2 = \<lparr>drop_id = s + 3, drop_p = p\<rparr>,
                 net_3 = \<lparr>lin_id = s + 4, lin_class = nn_Linear, in_features = d * mult * 2,
                           out_features = d, has_bias = True\<rparr>,
                 net_id = s + 5\<rparr>, s + 6))"
  by (simp add: FeedForward_init_def SquaredRelu_init_def Linear_init_eq Dropout_init_eq ctor_defs Let_def)

lemma Attention_init_eq:
  "Attention_init d h dh p s =
     (if dh = 0 then Inl ZeroDivisionError
      else if p < 0 \<or> 1 < p then Inl ValueError
      else if d < 0 \<or> h * dh < 0 \<or> dh < 0 \<or> h < 0 then Inl RuntimeError
      else Inr (Attention_obj d h dh p s, s + 7))"
  by (simp add: Attention_init_def pow_float_def Linear_init_eq Dropout_init_eq
      T5RelativePositionBias_init_eq ctor_defs Let_def Attention_obj_def)

lemma Attention_init_Inr:
  assumes "Attention_init d h dh p s = Inr (a, s')"
  shows "0 \<le> d \<and> 0 \<le> h \<and> 0 < dh \<and> 0 \<le> p \<and> p \<le> 1 \<and> a = Attention_obj d h dh p s \<and> s' = s + 7"
  using assms unfolding Attention_init_eq by (auto split: if_splits)

lemma Attention_init_ok:
  assumes "0 \<le> d" "0 \<le> h" "0 < dh" "0 \<le> p" "p \<le> 1"
  shows "Attention_init d h dh p s = Inr (Attention_obj d h dh p s, s + 7)"
  using assms unfolding Attention_init_eq by (simp add: mult_less_0_iff)

lemma FeedForward_init_eq':
  "FeedForward_init d mult p s =
     (if d < 0 \<or> d * mult * 2 < 0 then Inl RuntimeError
      else if p < 0 \<or> 1 < p then Inl ValueError
      else Inr (FeedForward_obj d mult p s, s + 6))"
  by (simp add: FeedForward_init_eq FeedForward_obj_def)

lemma layer_round_eq:
  "layer_round d attn ffn s =
     (if d < 0 then Inl RuntimeError else Inr (Layer_obj d attn ffn s, s + 7))"
  by (simp add: layer_round_def PreNorm_init_def Residual_init_def LayerNorm_init_eq
      ctor_defs Layer_obj_def)

lemma layers_loop_ok:
  "0 \<le> d \<Longrightarrow>
   layers_loop k d attn ffn acc s =
     Inr (acc @ map (\<lambda>r. Layer_obj d attn ffn (s + 7 * r)) [0..<k], s + 7 * k)"
proof (induction k arbitrary: acc s)
  case 0
  then show ?case by (simp add: returnS_def)
next
  case (Suc k)
  have "map (\<lambda>r. Layer_obj d attn ffn (s + 7 * r)) [0..<Suc k]
        = Layer_obj d attn ffn s # map (\<lambda>r. Layer_obj d attn ffn (s + 7 + 7 * r)) [0..<k]"
    by (simp add: upt_conv_Cons map_Suc_upt [symmetric] add.assoc del: upt_Suc)
  then show ?case using Suc
    by (simp add: bindS_def layer_round_eq)
qed

lemma layers_loop_neg:
  "d < 0 \<Longrightarrow> layers_loop (Suc k) d attn ffn acc s = Inl RuntimeError"
  by (simp add: bindS_def layer_round_eq)

lemma layers_loop_Inr:
  assumes "layers_loop k d attn ffn acc s = Inr (ls, s')"
  shows "ls = acc @ map (\<lambda>r. Layer_obj d attn ffn (s + 7 * r)) [0..<k] \<and> s' = s + 7 * k"
proof (cases "d < 0")
  case True
  then show ?thesis using assms layers_loop_neg [OF True, of _ attn ffn acc s]
    by (cases k) (simp_all add: returnS_def)
next
  case False
  then show ?thesis using assms layers_loop_ok [of d k attn ffn acc s] by simp
qed

lemma norm_ids_distinct:
  "distinct (concat (map (\<lambda>r. [a + 7 * r + 1, a + 7 * r + 4]) [0..<k])) \<and>
   (\<forall>x \<in> set (concat (map (\<lambda>r. [a + 7 * r + 1, a + 7 * r + 4]) [0..<k])). x < a + 7 * k)"
proof (induction k)
  case 0
  then show ?case by simp
next
  case (Suc k)
  then show ?case by (auto simp: less_Suc_eq)
qed

lemma Transformer_init_ok:
  assumes "0 \<le> d" "0 \<le> h" "0 < dh" "0 \<le> p" "p \<le> 1"
  shows "Transformer_init d depth h dh p q s =
           Inr (Transformer_obj d depth h dh p q s, s + 15 + 7 * nat depth)"
proof -
  have a: "Attention_init d h dh p (Suc (Suc s)) = Inr (Attention_obj d h dh p (s + 2), s + 9)"
    using Attention_init_ok [OF assms, of "Suc (Suc s)"] by simp
  have f: "FeedForward_init d 4 p (s + 9) = Inr (FeedForward_obj d 4 p (s + 9), s + 15)"
    using assms by (simp add: FeedForward_init_eq')
  show ?thesis
    unfolding Transformer_init_def
    by (simp add: bindS_def alloc_def returnS_def a f Let_def layers_loop_ok [OF assms(1)]
        Transformer_obj_def Transformer_attn_def Transformer_ffn_def)
qed

lemma Transformer_init_Inr:
  assumes "Transformer_init d depth h dh p q s = Inr (t, s')"
  shows "0 \<le> d \<and> 0 \<le> h \<and> 0 < dh \<and> 0 \<le> p \<and> p \<le> 1 \<and>
         t = Transformer_obj d depth h dh p q s \<and> s' = s + 15 + 7 * nat depth"
proof -
  obtain a s1 where a: "Attention_init d h dh p (Suc (Suc s)) = Inr (a, s1)"
    using assms unfolding Transformer_init_def
    by (auto simp: bindS_def alloc_def split: sum.splits)
  note c = Attention_init_Inr [OF a]
  then have c': "0 \<le> d" "0 \<le> h" "0 < dh" "0 \<le> p" "p \<le> 1" by simp_all
  show ?thesis using assms c unfolding Transformer_init_ok [OF c'] by simp
qed

lemma LaMDA_init_ok:
  assumes "0 \<le> nt" "0 \<le> d" "0 \<le> dh" "0 < h"
  shows "LaMDA_init nt d depth dh h qt s =
           Inr (LaMDA_obj nt d depth dh h qt s, s + 20 + 7 * nat depth)"
proof -
  have t: "Transformer_init d depth dh h 0 qt (Suc (Suc s)) =
             Inr (Transformer_obj d depth dh h 0 qt (s + 2), s + 17 + 7 * nat depth)"
    using Transformer_init_ok [of d dh h 0 depth qt "Suc (Suc s)"] assms by simp
  show ?thesis
    unfolding LaMDA_init_def using assms
    by (simp add: bindS_def alloc_def returnS_def t Embedding_init_eq LayerNorm_init_eq
        Linear_init_eq LaMDA_obj_def)
qed

lemma LaMDA_init_Inr:
  assumes "LaMDA_init nt d depth dh h qt s = Inr (m, s')"
  shows "0 \<le> nt \<and> 0 \<le> d \<and> 0 \<le> dh \<and> 0 < h \<and>
         m = LaMDA_obj nt d depth dh h qt s \<and> s' = s + 20 + 7 * nat depth"
proof -
  have e: "0 \<le> nt"
    using assms unfolding LaMDA_init_def
    by (auto simp: bindS_def alloc_def Embedding_init_eq raiseS_def split: sum.splits if_splits)
  obtain t s1 where t: "Transformer_init d depth dh h 0 qt (Suc (Suc s)) = Inr (t, s1)"
    using assms unfolding LaMDA_init_def
    by (auto simp: bindS_def alloc_def Embedding_init_eq split: sum.splits if_splits)
  note c = Transformer_init_Inr [OF t]
  then have c': "0 \<le> nt" "0 \<le> d" "0 \<le> dh" "0 < h" using e by simp_all
  show ?thesis using assms c' unfolding LaMDA_init_ok [OF c'] by simp
qed

text \<open>
  Claim C1. \<open>LaMDA.__init__\<close> passes \<open>dim_head\<close> and \<open>heads\<close> to \<open>Transformer\<close> in the
  transposed order: whenever the construction of the model completes, its transformer
  is the one \<open>Transformer(dim, depth, heads = dim_head, dim_head = heads)\<close> builds, and the
  attention module of every layer has \<open>dim_head\<close> (of the configuration) as its number of heads and
  \<open>heads\<close> (of the configuration) as its width per head: the query projection has
  \<open>dim_head * heads\<close> outputs, the key/value projection \<open>heads * 2\<close>, the scale is
  \<open>heads ** -0.5\<close> and the bias table has one column per \<open>dim_head\<close>.
\<close>

theorem LaMDA_transposes_heads_and_dim_head:
  assumes "LaMDA_init num_tokens dim' depth dim_head heads quantized_transformer s = Inr (m, s')"
  shows "(\<exists>s1 s2. Transformer_init dim' depth dim_head heads 0 quantized_transformer s1
                     = Inr (transformer m, s2)) \<and>
         length (layers (transformer m)) = nat depth \<and>
         (\<forall>l \<in> set (layers (transformer m)).
            \<exists>a. pn_fn (res_fn (layer_attn l)) = AttentionFn a \<and>
                att_heads a = dim_head \<and>
                out_features (to_q a) = dim_head * heads \<and>
                out_features (to_kv a) = heads * 2 \<and>
                att_scale a = real_of_int heads powr (- 0.5) \<and>
                embedding_dim (relative_attention_bias (rel_pos_bias a)) = dim_head)"
proof -
  note c = LaMDA_init_Inr [OF assms]
  then have c': "0 \<le> dim'" "0 \<le> dim_head" "0 < heads" by simp_all
  have m: "transformer m = Transformer_obj dim' depth dim_head heads 0 quantized_transformer (s + 2)"
    using c by (simp add: LaMDA_obj_def)
  have 1: "Transformer_init dim' depth dim_head heads 0 quantized_transformer (s + 2)
             = Inr (transformer m, s + 2 + 15 + 7 * nat depth)"
    unfolding m using Transformer_init_ok [OF c', of 0 depth quantized_transformer "s + 2"] by simp
  have 2: "length (layers (transformer m)) = nat depth"
    unfolding m by (simp add: Transformer_obj_def)
  have 3: "\<forall>l \<in> set (layers (transformer m)).
            \<exists>a. pn_fn (res_fn (layer_attn l)) = AttentionFn a \<and>
                att_heads a = dim_head \<and>
                out_features (to_q a) = dim_head * heads \<and>
                out_features (to_kv a) = heads * 2 \<and>
                att_scale a = real_of_int heads powr (- 0.5) \<and>
                embedding_dim (relative_attention_bias (rel_pos_bias a)) = dim_head"
    unfolding m
    by (auto simp: Transformer_obj_def Layer_obj_def Transformer_attn_def Attention_obj_def
        quantize_dynamic_Attention_def quantize_dynamic_Linear_def)
  show ?thesis using 1 2 3 by blast
qed

theorem LaMDA_transposes_heads_and_dim_head_witness:
  "\<exists>m s'. LaMDA_init 100 32 2 8 4 False 0 = Inr (m, s') \<and>
     length (layers (transformer m)) = 2 \<and>
     (\<forall>l \<in> set (layers (transformer m)).
        \<exists>a. pn_fn (res_fn (layer_attn l)) = AttentionFn a \<and>
            att_heads a = 8 \<and> out_features (to_kv a) = 4 * 2)"
proof -
  have i: "LaMDA_init 100 32 2 8 4 False 0 = Inr (LaMDA_obj 100 32 2 8 4 False 0, 0 + 20 + 7 * nat 2)"
    by (rule LaMDA_init_ok) simp_all
  from LaMDA_transposes_heads_and_dim_head [OF i] i
  show ?thesis by auto
qed

lemma norm_ids_Transformer_obj:
  "concat (map (\<lambda>l. [ln_id (pn_norm (res_fn (layer_attn l))), ln_id (pn_norm (res_fn (layer_ff l)))])
     (layers (Transformer_obj d depth h dh p q s)))
   = concat (map (\<lambda>r. [s + 15 + 7 * r + 1, s + 15 + 7 * r + 4]) [0..<nat depth])"
  by (simp add: Transformer_obj_def Layer_obj_def comp_def)

lemma pn_ids_distinct:
  "distinct (concat (map (\<lambda>r. [a + 7 * r, a + 7 * r + 3]) [0..<k])) \<and>
   (\<forall>x \<in> set (concat (map (\<lambda>r. [a + 7 * r, a + 7 * r + 3]) [0..<k])). x < a + 7 * k)"
  by (induction k) (auto simp: less_Suc_eq)

text \<open>
  Claim C6. Whenever the construction of a \<open>Transformer\<close> completes, it has \<open>depth\<close>
  layers, there is one \<open>Attention\<close> object and one \<open>FeedForward\<close> object that every layer
  wraps (the same objects at every depth, so any two layers share their attention and
  feedforward parameters), and the \<open>LayerNorm\<close> objects of the \<open>PreNorm\<close> wrappers, two per
  layer, are pairwise distinct objects, as the wrappers themselves are.
\<close>

theorem Transformer_shares_attention_and_feedforward:
  assumes "Transformer_init dim' depth heads dim_head dropout quantized s = Inr (t, s')"
  shows "length (layers t) = nat depth \<and>
         (\<exists>attn ffn. \<forall>l \<in> set (layers t).
            pn_fn (res_fn (layer_attn l)) = AttentionFn attn \<and>
            pn_fn (res_fn (layer_ff l)) = FeedForwardFn ffn) \<and>
         distinct (concat (map (\<lambda>l. [ln_id (pn_norm (res_fn (layer_attn l))),
                                      ln_id (pn_norm (res_fn (layer_ff l)))]) (layers t))) \<and>
         distinct (concat (map (\<lambda>l. [pn_id (res_fn (layer_attn l)),
                                      pn_id (res_fn (layer_ff l))]) (layers t)))"
proof -
  note c = Transformer_init_Inr [OF assms]
  then have t: "t = Transformer_obj dim' depth heads dim_head dropout quantized s" by simp
  have 1: "length (layers t) = nat depth" unfolding t by (simp add: Transformer_obj_def)
  have 2: "\<forall>l \<in> set (layers t).
            pn_fn (res_fn (layer_attn l)) = AttentionFn (Transformer_attn dim' heads dim_head dropout quantized s) \<and>
            pn_fn (res_fn (layer_ff l)) = FeedForwardFn (Transformer_ffn dim' dropout quantized s)"
    unfolding t by (auto simp: Transformer_obj_def Layer_obj_def)
  have 3: "distinct (concat (map (\<lambda>l. [ln_id (pn_norm (res_fn (layer_attn l))),
                                      ln_id (pn_norm (res_fn (layer_ff l)))]) (layers t)))"
    unfolding t norm_ids_Transformer_obj by (rule conjunct1 [OF norm_ids_distinct])
  have e: "concat (map (\<lambda>l. [pn_id (res_fn (layer_attn l)), pn_id (res_fn (layer_ff l))]) (layers t))
        = concat (map (\<lambda>r. [s + 15 + 7 * r, s + 15 + 7 * r + 3]) [0..<nat depth])"
    unfolding t by (simp add: Transformer_obj_def Layer_obj_def comp_def)
  have 4: "distinct (concat (map (\<lambda>l. [pn_id (res_fn (layer_attn l)),
                                      pn_id (res_fn (layer_ff l))]) (layers t)))"
    unfolding e by (rule conjunct1 [OF pn_ids_distinct])
  show ?thesis using 1 2 3 4 by blast
qed

theorem Transformer_shares_attention_and_feedforward_witness:
  "\<exists>t s'. Transformer_init 32 2 4 8 0 False 0 = Inr (t, s') \<and>
     length (layers t) = 2 \<and>
     (\<exists>attn ffn. \<forall>l \<in> set (layers t).
            pn_fn (res_fn (layer_attn l)) = AttentionFn attn \<and>
            pn_fn (res_fn (layer_ff l)) = FeedForwardFn ffn) \<and>
     distinct (concat (map (\<lambda>l. [ln_id (pn_norm (res_fn (layer_attn l))),
                                      ln_id (pn_norm (res_fn (layer_ff l)))]) (layers t)))"
proof -
  have i: "Transformer_init 32 2 4 8 0 False 0 = Inr (Transformer_obj 32 2 4 8 0 False 0, 0 + 15 + 7 * nat 2)"
    by (rule Transformer_init_ok) simp_all
  from Transformer_shares_attention_and_feedforward [OF i] i
  show ?thesis by auto
qed

lemma Linear_forward_3:
  "int c = in_features l \<Longrightarrow> Linear_forward l [b, n, c] = Inr [b, n, nat (out_features l)]"
  by (simp add: Linear_forward_def)

lemma chunk2_even:
  "0 < c \<Longrightarrow> chunk2 [b, n, c * 2] = Inr [[b, n, c], [b, n, c]]"
  by (simp add: chunk2_def Let_def)

lemma rearrange_b_n_hd_ok:
  "0 < h \<Longrightarrow> 0 \<le> d \<Longrightarrow> rearrange_b_n_hd [b, n, nat (h * d)] h = Inr [b, nat h, n, nat d]"
  by (simp add: rearrange_b_n_hd_def nat_mult_distrib)

lemma Attention_qkv_obj:
  assumes "0 \<le> d" "0 < h" "0 < dh"
  shows "Attention_qkv (Attention_obj d h dh p s) [b, n, nat d] =
           Inr ([b, nat h, n, nat dh], [b, n, nat dh], [b, n, nat dh])"
proof -
  have k: "nat (dh * 2) = nat dh * 2" using assms by (simp add: nat_mult_distrib)
  have "0 < nat dh" using assms by simp
  note ch = chunk2_even [OF this, of b n]
  show ?thesis using assms
    by (simp add: Attention_qkv_def Attention_obj_def Linear_forward_3 bind_def k ch
        rearrange_b_n_hd_ok)
qed

text \<open>
  Claim C7. In a constructed \<open>Attention\<close>, the query projection maps \<open>dim\<close> to
  \<open>heads * dim_head\<close> features without a bias and the scale is \<open>dim_head ** -0.5\<close>; keys and
  values come from one projection of \<open>dim\<close> to \<open>2 * dim_head\<close> features without a bias. On
  an input of shape \<open>(batch, seq_len, dim)\<close> the queries have shape
  \<open>(batch, heads, seq_len, dim_head)\<close>, one slice per head, while the key tensor and the
  value tensor have shape \<open>(batch, seq_len, dim_head)\<close>, with no axis for the heads.
\<close>

theorem Attention_projections:
  assumes "Attention_init dim' heads dim_head dropout s = Inr (a, s')"
  shows "in_features (to_q a) = dim' \<and> out_features (to_q a) = heads * dim_head \<and>
         \<not> has_bias (to_q a) \<and>
         att_scale a = real_of_int dim_head powr (- 0.5) \<and>
         in_features (to_kv a) = dim' \<and> out_features (to_kv a) = dim_head * 2 \<and>
         \<not> has_bias (to_kv a) \<and>
         (0 < heads \<longrightarrow>
            Attention_qkv a [batch, seq_len, nat dim'] =
              Inr ([batch, nat heads, seq_len, nat dim_head],
                   [batch, seq_len, nat dim_head],
                   [batch, seq_len, nat dim_head]))"
proof -
  note c = Attention_init_Inr [OF assms]
  then have a: "a = Attention_obj dim' heads dim_head dropout s" by simp
  have q: "0 < heads \<longrightarrow>
            Attention_qkv a [batch, seq_len, nat dim'] =
              Inr ([batch, nat heads, seq_len, nat dim_head],
                   [batch, seq_len, nat dim_head],
                   [batch, seq_len, nat dim_head])"
    unfolding a using c Attention_qkv_obj [of dim' heads dim_head dropout s batch seq_len] by simp
  show ?thesis using q unfolding a by (simp add: Attention_obj_def)
qed

theorem Attention_projections_witness:
  "\<exists>a s'. Attention_init 32 4 8 0 0 = Inr (a, s') \<and>
     out_features (to_q a) = 4 * 8 \<and> out_features (to_kv a) = 8 * 2 \<and>
     Attention_qkv a [1, 16, nat 32] = Inr ([1, nat 4, 16, nat 8], [1, 16, nat 8], [1, 16, nat 8])"
proof -
  have i: "Attention_init 32 4 8 0 0 = Inr (Attention_obj 32 4 8 0 0, 0 + 7)"
    by (rule Attention_init_ok) simp_all
  from Attention_projections [OF i, of 1 16] i
  show ?thesis by auto
qed

lemma lamda_model_ok:
  assumes "0 \<le> cfg_num_tokens cfg" "0 \<le> cfg_dim cfg" "0 \<le> cfg_dim_head cfg" "0 < cfg_heads cfg"
  shows "lamda_model cfg ql qt s =
     Inr (if ql then quantize_dynamic_LaMDA
                       (LaMDA_obj (cfg_num_tokens cfg) (cfg_dim cfg) (cfg_depth cfg) (cfg_dim_head cfg)
                          (cfg_heads cfg) qt s)
          else LaMDA_obj (cfg_num_tokens cfg) (cfg_dim cfg) (cfg_depth cfg) (cfg_dim_head cfg)
                          (cfg_heads cfg) qt s,
          s + 20 + 7 * nat (cfg_depth cfg))"
  unfolding lamda_model_def by (simp add: bindS_def LaMDA_init_ok [OF assms] returnS_def)

lemma layers_cfg0:
  "layers (Transformer_obj 32 2 8 4 0 False s) =
     [Layer_obj 32 (AttentionFn (Attention_obj 32 8 4 0 (s + 2)))
                   (FeedForwardFn (FeedForward_obj 32 4 0 (s + 9))) (s + 15),
      Layer_obj 32 (AttentionFn (Attention_obj 32 8 4 0 (s + 2)))
                   (FeedForwardFn (FeedForward_obj 32 4 0 (s + 9))) (s + 22)]"
proof -
  have "[0..<nat 2] = [0, 1]" by (simp add: upt_conv_Cons)
  then show ?thesis
    by (simp add: Transformer_obj_def Transformer_attn_def Transformer_ffn_def add.commute)
qed

text \<open>
  Claim C2. With \<open>quantized_logits\<close> enabled and \<open>quantized_transformer\<close> disabled, for the
  configuration \<open>num_tokens = 100, dim = 32, depth = 2, dim_head = 8, heads = 4\<close>:
  \<open>lamda_model\<close> returns a model in which the three projections of the attention and the
  two of the feedforward block are dynamically quantized in every layer, as the output
  projection is, while they are \<open>nn.Linear\<close> in the model built with both flags disabled; the
  embedding and the final normalization are the same in both.
\<close>

theorem lamda_model_quantized_logits_quantizes_transformer:
  "\<exists>m s' m0 s0.
     lamda_model \<lparr>cfg_num_tokens = 100, cfg_dim = 32, cfg_depth = 2, cfg_dim_head = 8,
                  cfg_heads = 4\<rparr> True False 0 = Inr (m, s') \<and>
     lamda_model \<lparr>cfg_num_tokens = 100, cfg_dim = 32, cfg_depth = 2, cfg_dim_head = 8,
                  cfg_heads = 4\<rparr> False False 0 = Inr (m0, s0) \<and>
     length (layers (transformer m)) = 2 \<and>
     list_all (\<lambda>l. case pn_fn (res_fn (layer_attn l)) of
                      AttentionFn a \<Rightarrow> lin_class (to_q a) = nnqd_Linear \<and>
                                      lin_class (to_kv a) = nnqd_Linear \<and>
                                      lin_class (to_out a) = nnqd_Linear
                    | FeedForwardFn f \<Rightarrow> False) (layers (transformer m)) \<and>
     list_all (\<lambda>l. case pn_fn (res_fn (layer_ff l)) of
                      AttentionFn a \<Rightarrow> False
                    | FeedForwardFn f \<Rightarrow> lin_class (net_0 f) = nnqd_Linear \<and>
                                        lin_class (net_3 f) = nnqd_Linear)
              (layers (transformer m)) \<and>
     list_all (\<lambda>l. case pn_fn (res_fn (layer_attn l)) of
                      AttentionFn a \<Rightarrow> lin_class (to_q a) = nn_Linear \<and>
                                      lin_class (to_kv a) = nn_Linear \<and>
                                      lin_class (to_out a) = nn_Linear
                    | FeedForwardFn f \<Rightarrow> False) (layers (transformer m0)) \<and>
     transformer m \<noteq> transformer m0 \<and>
     lin_class (to_logits_1 m) = nnqd_Linear \<and>
     token_emb m = token_emb m0 \<and> to_logits_0 m = to_logits_0 m0"
proof -
  let ?cfg = "\<lparr>cfg_num_tokens = 100, cfg_dim = 32, cfg_depth = 2, cfg_dim_head = 8,
                  cfg_heads = 4\<rparr>"
  let ?base = "LaMDA_obj 100 32 2 8 4 False 0"
  let ?qm = "quantize_dynamic_LaMDA ?base"
  have a: "lamda_model ?cfg True False 0 = Inr (?qm, 34)"
    by (simp add: lamda_model_ok)
  have b: "lamda_model ?cfg False False 0 = Inr (?base, 34)"
    by (simp add: lamda_model_ok)
  have l0: "layers (transformer ?base) =
     [Layer_obj 32 (AttentionFn (Attention_obj 32 8 4 0 4))
                   (FeedForwardFn (FeedForward_obj 32 4 0 11)) 17,
      Layer_obj 32 (AttentionFn (Attention_obj 32 8 4 0 4))
                   (FeedForwardFn (FeedForward_obj 32 4 0 11)) 24]"
  proof -
    have "transformer ?base = Transformer_obj 32 2 8 4 0 False 2"
      unfolding LaMDA_obj_def by (simp only: LaMDA.select_convs add_0)
    then show ?thesis using layers_cfg0 [of 2] by simp
  qed
  have l: "layers (transformer ?qm) = map quantize_dynamic_Layer (layers (transformer ?base))"
    by (simp add: quantize_dynamic_LaMDA_def quantize_dynamic_Transformer_def)
  have 1: "length (layers (transformer ?qm)) = 2" unfolding l l0 by simp
  have 2: "list_all (\<lambda>l. case pn_fn (res_fn (layer_attn l)) of
                      AttentionFn a \<Rightarrow> lin_class (to_q a) = nnqd_Linear \<and>
                                      lin_class (to_kv a) = nnqd_Linear \<and>
                                      lin_class (to_out a) = nnqd_Linear
                    | FeedForwardFn f \<Rightarrow> False) (layers (transformer ?qm))"
    unfolding l l0
    by (simp add: quantize_dynamic_Layer_def quantize_dynamic_Residual_def
        quantize_dynamic_PreNorm_def quantize_dynamic_Attention_def quantize_dynamic_Linear_def
        Layer_obj_def Attention_obj_def)
  have 3: "list_all (\<lambda>l. case pn_fn (res_fn (layer_ff l)) of
                      AttentionFn a \<Rightarrow> False
                    | FeedForwardFn f \<Rightarrow> lin_class (net_0 f) = nnqd_Linear \<and>
                                        lin_class (net_3 f) = nnqd_Linear)
              (layers (transformer ?qm))"
    unfolding l l0
    by (simp add: quantize_dynamic_Layer_def quantize_dynamic_Residual_def
        quantize_dynamic_PreNorm_def quantize_dynamic_FeedForward_def quantize_dynamic_Linear_def
        Layer_obj_def FeedForward_obj_def)
  have 4: "list_all (\<lambda>l. case pn_fn (res_fn (layer_attn l)) of
                      AttentionFn a \<Rightarrow> lin_class (to_q a) = nn_Linear \<and>
                                      lin_class (to_kv a) = nn_Linear \<and>
                                      lin_class (to_out a) = nn_Linear
                    | FeedForwardFn f \<Rightarrow> False) (layers (transformer ?base))"
    unfolding l0 by (simp add: Layer_obj_def Attention_obj_def)
  have 5: "transformer ?qm \<noteq> transformer ?base"
  proof
    assume "transformer ?qm = transformer ?base"
    then have "layers (transformer ?qm) = layers (transformer ?base)" by simp
    then have "list_all (\<lambda>l. case pn_fn (res_fn (layer_attn l)) of
                      AttentionFn a \<Rightarrow> lin_class (to_q a) = nnqd_Linear \<and>
                                      lin_class (to_kv a) = nnqd_Linear \<and>
                                      lin_class (to_out a) = nnqd_Linear
                    | FeedForwardFn f \<Rightarrow> False) (layers (transformer ?base))"
      using 2 by simp
    then show False unfolding l0 by (simp add: Layer_obj_def Attention_obj_def)
  qed
  have 6: "lin_class (to_logits_1 ?qm) = nnqd_Linear \<and> token_emb ?qm = token_emb ?base \<and>
           to_logits_0 ?qm = to_logits_0 ?base"
    by (simp add: quantize_dynamic_LaMDA_def quantize_dynamic_Linear_def LaMDA_obj_def)
  show ?thesis using a b 1 2 3 4 5 6 by blast
qed

section \<open>The feedforward block\<close>

text \<open>
  Claim C8, as stated, fails. Squared ReLU maps the eight features
  \<open>1, 1, 1, 1, 2, 2, 2, 2\<close> to eight features, the last four squared, where an activation on
  the first half only would return four; and for \<open>dim = 1\<close>, the output of the net on
  the input \<open>1\<close> changes from \<open>1\<close> to \<open>0\<close> when only the weights that produce the second
  half of the hidden features change.
\<close>

theorem FeedForward_second_half_used:
  "SquaredRelu_forward [1, 1, 1, 1, 2, 2, 2, 2] = [1, 1, 1, 1, 4, 4, 4, 4] \<and>
   spec_first_half_activation [1, 1, 1, 1, 2, 2, 2, 2] = [1, 1, 1, 1] \<and>
   FeedForward_net [[1], [1], [1], [1], [1], [1], [1], [1]] [0, 0, 0, 0, 0, 0, 0, 0]
                   [[0, 0, 0, 0, 0, 0, 0, 1]] [0] [1] = [1] \<and>
   FeedForward_net [[1], [1], [1], [1], [0], [0], [0], [0]] [0, 0, 0, 0, 0, 0, 0, 0]
                   [[0, 0, 0, 0, 0, 0, 0, 1]] [0] [1] = [0]"
  by (simp add: SquaredRelu_forward_def spec_first_half_activation_def FeedForward_net_def
      Linear_apply_def)

text \<open>
  Claim C8, amended. In a constructed \<open>FeedForward\<close> (with \<open>mult = 4\<close>) the first affine map
  expands \<open>dim\<close> features to \<open>2 * inner_dim\<close>, \<open>inner_dim = dim * 4\<close>; the squared ReLU is
  applied to every one of these \<open>2 * inner_dim\<close> features (no half is dropped, no gate is
  applied); the second affine map takes all \<open>2 * inner_dim\<close> features back to \<open>dim\<close>, so
  that the block maps the shape \<open>(batch, seq_len, dim)\<close> to itself.
\<close>

theorem FeedForward_full_width_activation:
  assumes "FeedForward_init dim' 4 dropout s = Inr (f, s')"
  shows "in_features (net_0 f) = dim' \<and> out_features (net_0 f) = dim' * 4 * 2 \<and>
         in_features (net_3 f) = dim' * 4 * 2 \<and> out_features (net_3 f) = dim' \<and>
         length (SquaredRelu_forward h) = length h \<and>
         (\<forall>j < length h. SquaredRelu_forward h ! j = (max (h ! j) 0)\<^sup>2) \<and>
         FeedForward_net w0 b0 w3 b3 x =
           Linear_apply w3 b3 (map (\<lambda>v. (max v 0)\<^sup>2) (Linear_apply w0 b0 x)) \<and>
         FeedForward_forward f [batch, seq_len, nat dim'] = Inr [batch, seq_len, nat dim']"
proof -
  have f: "f = FeedForward_obj dim' 4 dropout s" and d: "0 \<le> dim'"
    using assms unfolding FeedForward_init_eq' by (auto split: if_splits)
  have fw: "FeedForward_forward f [batch, seq_len, nat dim'] = Inr [batch, seq_len, nat dim']"
    unfolding f using d
    by (simp add: FeedForward_forward_def FeedForward_obj_def Linear_forward_3 bind_def)
  show ?thesis using fw unfolding f
    by (simp add: FeedForward_obj_def SquaredRelu_forward_def FeedForward_net_def)
qed

theorem FeedForward_full_width_activation_witness:
  "\<exists>f s'. FeedForward_init 1 4 0 0 = Inr (f, s') \<and>
     out_features (net_0 f) = 1 * 4 * 2 \<and> in_features (net_3 f) = 1 * 4 * 2 \<and>
     length (SquaredRelu_forward [1, 1, 1, 1, 2, 2, 2, 2]) = 8 \<and>
     SquaredRelu_forward [1, 1, 1, 1, 2, 2, 2, 2] ! 7 = (max 2 0)\<^sup>2"
proof -
  have i: "FeedForward_init 1 4 0 0 = Inr (FeedForward_obj 1 4 0 0, 0 + 6)"
    by (simp add: FeedForward_init_eq')
  from FeedForward_full_width_activation [OF i, of "[1, 1, 1, 1, 2, 2, 2, 2]"] i
  show ?thesis by auto
qed

section \<open>Unchecked hyperparameters\<close>

text \<open>
  Claim C10, as stated, fails. With \<open>num_buckets = 31\<close>, an odd number, and
  \<open>max_distance = 8\<close>, below \<open>num_buckets/2\<close>, the construction of the bias module completes.
\<close>

theorem T5RelativePositionBias_init_odd_buckets:
  "T5RelativePositionBias_init 1 31 8 8 0 =
     Inr (\<lparr>rpb_id = 0, rpb_scale = 1, num_buckets = 31, max_distance = 8,
           relative_attention_bias = \<lparr>emb_id = 1, num_embeddings = 31, embedding_dim = 8\<rparr>\<rparr>, 2)"
  by (simp add: T5RelativePositionBias_init_eq)

text \<open>
  Claim C10, amended. No constructor validates its hyperparameters. The constructor of
  the bias module checks neither the parity of \<open>num_buckets\<close> nor \<open>max_distance\<close>: for every
  \<open>num_buckets \<ge> 0\<close>, every \<open>heads \<ge> 0\<close>, every \<open>max_distance\<close> and every scale the
  construction completes without an error and stores \<open>num_buckets\<close> and \<open>max_distance\<close> as
  given. The constructor of the model does not check \<open>depth\<close>: with the other four
  hyperparameters positive and \<open>depth \<le> 0\<close> the construction completes, with no layers.
\<close>

theorem construction_unchecked:
  "(0 \<le> nb \<and> 0 \<le> heads \<longrightarrow>
      T5RelativePositionBias_init scale nb md heads s =
        Inr (\<lparr>rpb_id = s, rpb_scale = scale, num_buckets = nb, max_distance = md,
              relative_attention_bias =
                \<lparr>emb_id = Suc s, num_embeddings = nb, embedding_dim = heads\<rparr>\<rparr>, Suc (Suc s))) \<and>
   (0 < num_tokens \<and> 0 < dim' \<and> 0 < dim_head \<and> 0 < h \<and> depth \<le> 0 \<longrightarrow>
      (\<exists>m s'. LaMDA_init num_tokens dim' depth dim_head h quantized_transformer s = Inr (m, s') \<and>
               layers (transformer m) = []))"
proof (intro conjI impI)
  assume "0 \<le> nb \<and> 0 \<le> heads"
  then show "T5RelativePositionBias_init scale nb md heads s =
        Inr (\<lparr>rpb_id = s, rpb_scale = scale, num_buckets = nb, max_distance = md,
              relative_attention_bias =
                \<lparr>emb_id = Suc s, num_embeddings = nb, embedding_dim = heads\<rparr>\<rparr>, Suc (Suc s))"
    by (simp add: T5RelativePositionBias_init_eq)
next
  assume a: "0 < num_tokens \<and> 0 < dim' \<and> 0 < dim_head \<and> 0 < h \<and> depth \<le> 0"
  then have i: "LaMDA_init num_tokens dim' depth dim_head h quantized_transformer s =
           Inr (LaMDA_obj num_tokens dim' depth dim_head h quantized_transformer s,
                s + 20 + 7 * nat depth)"
    by (intro LaMDA_init_ok) simp_all
  have "layers (transformer (LaMDA_obj num_tokens dim' depth dim_head h quantized_transformer s)) = []"
    using a by (simp add: LaMDA_obj_def Transformer_obj_def)
  then show "\<exists>m s'. LaMDA_init num_tokens dim' depth dim_head h quantized_transformer s = Inr (m, s') \<and>
               layers (transformer m) = []"
    using i by simp
qed

theorem construction_unchecked_witness:
  "(0::int) \<le> 31 \<and> (0::int) \<le> 8 \<and> odd (31::int) \<and> (8::int) \<le> 31 div 2 \<and>
   T5RelativePositionBias_init 1 31 8 8 0 =
     Inr (\<lparr>rpb_id = 0, rpb_scale = 1, num_buckets = 31, max_distance = 8,
           relative_attention_bias = \<lparr>emb_id = Suc 0, num_embeddings = 31, embedding_dim = 8\<rparr>\<rparr>,
          Suc (Suc 0)) \<and>
   (0::int) < 100 \<and> (0::int) < 32 \<and> (0::int) < 8 \<and> (0::int) < 4 \<and> (0::int) \<le> 0 \<and>
   (\<exists>m s'. LaMDA_init 100 32 0 8 4 False 0 = Inr (m, s') \<and> layers (transformer m) = [])"
  using construction_unchecked [of 31 8 1 8 0 100 32 8 4 0 False] by simp

section \<open>The forward pass\<close>

text \<open>
  With the default \<open>num_buckets = 32\<close> and \<open>max_distance = 128\<close>, the only values the source
  ever constructs the bias module with, every bucket is an index of the bias table.
\<close>

lemma bucket_default_range:
  "\<exists>b. relative_position_bucket r 32 128 = Inr b \<and> 0 \<le> b \<and> b < 32"
proof -
  have e: "relative_position_bucket r 32 128 =
     Inr (if max (- r) 0 < 32 div 2 then max (- r) 0
          else min (32 div 2 + long (large_arg 32 128 (max (- r) 0))) (32 - 1))"
    by (rule bucket_eq) simp_all
  have "\<not> max (- r) 0 < 16 \<Longrightarrow> 0 \<le> long (large_arg 32 128 (max (- r) 0))"
    using large_arg_nonneg [of 32 128 "max (- r) 0"] by (simp add: long_nonneg)
  then show ?thesis unfolding e by auto
qed

lemma mapE_ok:
  "(\<And>x. \<exists>y. f x = Inr y \<and> P y) \<Longrightarrow> \<exists>ys. mapE f xs = Inr ys \<and> list_all P ys"
proof (induction xs)
  case Nil
  then show ?case by simp
next
  case (Cons x xs)
  obtain y where y: "f x = Inr y" "P y" using Cons.prems by blast
  obtain ys where ys: "mapE f xs = Inr ys" "list_all P ys" using Cons by blast
  show ?case by (simp add: y ys bind_def)
qed

lemma broadcast_rev_same: "broadcast_rev x x = Inr x"
  by (induction x) (simp_all add: bind_def bdim_def)

lemma broadcast_same: "broadcast x x = Inr x"
  by (simp add: broadcast_def broadcast_rev_same bind_def)

lemma broadcast_bias: "broadcast [b, h, i, j] [Suc 0, h, i, j] = Inr [b, h, i, j]"
  by (simp add: broadcast_def bind_def bdim_def)

lemma T5_forward_default:
  assumes "num_buckets m = 32" "max_distance m = 128"
    "num_embeddings (relative_attention_bias m) = 32"
    "embedding_dim (relative_attention_bias m) = int h"
  shows "T5RelativePositionBias_forward m [b, h, i, j] = Inr [b, h, i, j]"
proof -
  obtain ys where ys: "mapE (\<lambda>r. relative_position_bucket r 32 128) (rel_pos i j) = Inr ys"
      "list_all (\<lambda>b. 0 \<le> b \<and> b < 32) ys"
    using mapE_ok [of "\<lambda>r. relative_position_bucket r 32 128" "\<lambda>b. 0 \<le> b \<and> b < 32" "rel_pos i j"]
      bucket_default_range by blast
  have lr: "math_log_ratio 128 (32 div 2) = Inr (ln (real_of_int 128 / real_of_int (32 div 2)))"
    by (rule math_log_ratio_ok) simp_all
  have t: "relative_position_bucket_tensor (rel_pos i j) 32 128 = Inr ys"
    unfolding relative_position_bucket_tensor_def lr by (simp add: bind_def ys)
  show ?thesis
    unfolding T5RelativePositionBias_forward_def
    by (simp add: assms t ys bind_def Embedding_forward_def rearrange_i_j_h_def broadcast_bias)
qed

lemma quantize_dynamic_Linear_features:
  "in_features (quantize_dynamic_Linear l) = in_features l"
  "out_features (quantize_dynamic_Linear l) = out_features l"
  by (simp_all add: quantize_dynamic_Linear_def)

lemma Linear_forward_quantized:
  "Linear_forward (quantize_dynamic_Linear l) = Linear_forward l"
  unfolding Linear_forward_def by (simp only: quantize_dynamic_Linear_features)

lemma quantize_dynamic_Attention_fields:
  "to_q (quantize_dynamic_Attention a) = quantize_dynamic_Linear (to_q a)"
  "to_kv (quantize_dynamic_Attention a) = quantize_dynamic_Linear (to_kv a)"
  "to_out (quantize_dynamic_Attention a) = quantize_dynamic_Linear (to_out a)"
  "rel_pos_bias (quantize_dynamic_Attention a) = rel_pos_bias a"
  "att_heads (quantize_dynamic_Attention a) = att_heads a"
  by (simp_all add: quantize_dynamic_Attention_def)

lemma Attention_qkv_quantized:
  "Attention_qkv (quantize_dynamic_Attention a) x = Attention_qkv a x"
  unfolding Attention_qkv_def
  by (simp only: quantize_dynamic_Attention_fields Linear_forward_quantized)

lemma Attention_forward_quantized:
  "Attention_forward (quantize_dynamic_Attention a) x = Attention_forward a x"
  unfolding Attention_forward_def
  by (simp only: quantize_dynamic_Attention_fields Linear_forward_quantized
      Attention_qkv_quantized)

lemma quantize_dynamic_FeedForward_fields:
  "net_0 (quantize_dynamic_FeedForward f) = quantize_dynamic_Linear (net_0 f)"
  "net_3 (quantize_dynamic_FeedForward f) = quantize_dynamic_Linear (net_3 f)"
  by (simp_all add: quantize_dynamic_FeedForward_def)

lemma FeedForward_forward_quantized:
  "FeedForward_forward (quantize_dynamic_FeedForward f) x = FeedForward_forward f x"
  unfolding FeedForward_forward_def
  by (simp only: quantize_dynamic_FeedForward_fields Linear_forward_quantized)

lemma Attention_forward_obj:
  assumes "0 \<le> d" "0 < h" "0 < dh"
  shows "Attention_forward (Attention_obj d h dh p s) [b, n, nat d] = Inr [b, n, nat d]"
proof -
  have q: "Attention_qkv (Attention_obj d h dh p s) [b, n, nat d] =
           Inr ([b, nat h, n, nat dh], [b, n, nat dh], [b, n, nat dh])"
    using assms by (rule Attention_qkv_obj)
  have sim: "einsum_bhid_bjd [b, nat h, n, nat dh] [b, n, nat dh] = Inr [b, nat h, n, n]"
    by (simp add: einsum_bhid_bjd_def bind_def bdim_def)
  have t5: "T5RelativePositionBias_forward (rel_pos_bias (Attention_obj d h dh p s)) [b, nat h, n, n]
            = Inr [b, nat h, n, n]"
    using assms by (intro T5_forward_default) (simp_all add: Attention_obj_def)
  have out: "einsum_bhij_bjd [b, nat h, n, n] [b, n, nat dh] = Inr [b, nat h, n, nat dh]"
    by (simp add: einsum_bhij_bjd_def bind_def bdim_def)
  have r: "rearrange_b_h_n_d [b, nat h, n, nat dh] = Inr [b, n, nat h * nat dh]"
    by (simp add: rearrange_b_h_n_d_def)
  have l: "Linear_forward (to_out (Attention_obj d h dh p s)) [b, n, nat h * nat dh] = Inr [b, n, nat d]"
    using assms by (intro Linear_forward_3 [THEN trans]) (simp_all add: Attention_obj_def)
  show ?thesis
    unfolding Attention_forward_def by (simp add: q sim t5 out r l bind_def)
qed

lemma FeedForward_forward_obj:
  assumes "0 \<le> d"
  shows "FeedForward_forward (FeedForward_obj d 4 p s) [b, n, nat d] = Inr [b, n, nat d]"
  using assms
  by (simp add: FeedForward_forward_def FeedForward_obj_def Linear_forward_3 bind_def)

lemma LayerNorm_forward_3:
  "int c = normalized_shape l \<Longrightarrow> LayerNorm_forward l [b, n, c] = Inr [b, n, c]"
  by (simp add: LayerNorm_forward_def)

lemma Layer_forward_obj:
  assumes "0 \<le> d" "Attention_forward a [b, n, nat d] = Inr [b, n, nat d]"
    "FeedForward_forward f [b, n, nat d] = Inr [b, n, nat d]"
  shows "Residual_forward (layer_attn (Layer_obj d (AttentionFn a) (FeedForwardFn f) s)) [b, n, nat d]
           = Inr [b, n, nat d] \<and>
         Residual_forward (layer_ff (Layer_obj d (AttentionFn a) (FeedForwardFn f) s)) [b, n, nat d]
           = Inr [b, n, nat d]"
  using assms
  by (simp add: Residual_forward_def PreNorm_forward_def Layer_obj_def LayerNorm_forward_3
      bind_def broadcast_same)

lemma layers_forward_all:
  assumes "\<And>l. l \<in> set ls \<Longrightarrow> Residual_forward (layer_attn l) x = Inr x \<and>
                                  Residual_forward (layer_ff l) x = Inr x"
  shows "layers_forward ls x = Inr x"
  using assms by (induction ls) (simp_all add: bind_def)

lemma Transformer_forward_obj:
  assumes "0 \<le> d" "0 < h" "0 < dh"
  shows "Transformer_forward (Transformer_obj d depth h dh p q s) [b, n, nat d] = Inr [b, n, nat d]"
proof -
  have a: "Attention_forward (Transformer_attn d h dh p q s) [b, n, nat d] = Inr [b, n, nat d]"
    using Attention_forward_obj [OF assms] 
    by (simp add: Transformer_attn_def Attention_forward_quantized)
  have f: "FeedForward_forward (Transformer_ffn d p q s) [b, n, nat d] = Inr [b, n, nat d]"
    using FeedForward_forward_obj [OF assms(1)]
    by (simp add: Transformer_ffn_def FeedForward_forward_quantized)
  show ?thesis
    unfolding Transformer_forward_def
    by (rule layers_forward_all) (auto simp: Transformer_obj_def intro: Layer_forward_obj [OF assms(1) a f, THEN conjunct1] Layer_forward_obj [OF assms(1) a f, THEN conjunct2])
qed

lemma LaMDA_forward_obj:
  assumes "0 \<le> nt" "0 \<le> d" "0 < dh" "0 < h"
    "list_all (\<lambda>v. 0 \<le> v \<and> v < nt) vals"
  shows "LaMDA_forward (LaMDA_obj nt d depth dh h qt s) ([b, n], vals) = Inr [b, n, nat nt]"
proof -
  have t: "Transformer_forward (Transformer_obj d depth dh h 0 qt (Suc (Suc s))) [b, n, nat d] = Inr [b, n, nat d]"
    using assms by (intro Transformer_forward_obj) simp_all
  show ?thesis
    unfolding LaMDA_forward_def using assms
    by (simp add: LaMDA_obj_def Embedding_forward_def bind_def t LayerNorm_forward_3 Linear_forward_3)
qed

lemma sublayer_forward_quantized:
  "sublayer_forward (quantize_dynamic_sublayer f) x = sublayer_forward f x"
  by (cases f) (simp_all add: Attention_forward_quantized FeedForward_forward_quantized)

lemma Residual_forward_quantized:
  "Residual_forward (quantize_dynamic_Residual r) x = Residual_forward r x"
  by (simp add: Residual_forward_def PreNorm_forward_def quantize_dynamic_Residual_def
      quantize_dynamic_PreNorm_def sublayer_forward_quantized)

lemma quantize_dynamic_Layer_fields:
  "layer_attn (quantize_dynamic_Layer l) = quantize_dynamic_Residual (layer_attn l)"
  "layer_ff (quantize_dynamic_Layer l) = quantize_dynamic_Residual (layer_ff l)"
  by (simp_all add: quantize_dynamic_Layer_def)

lemma layers_forward_quantized:
  "layers_forward (map quantize_dynamic_Layer ls) = layers_forward ls"
proof (induction ls)
  case Nil
  then show ?case by simp
next
  case (Cons l ls)
  show ?case
    by (rule ext) (simp add: Cons quantize_dynamic_Layer_fields Residual_forward_quantized)
qed

lemma LaMDA_forward_quantized:
  "LaMDA_forward (quantize_dynamic_LaMDA m) x = LaMDA_forward m x"
  by (simp add: LaMDA_forward_def quantize_dynamic_LaMDA_def Transformer_forward_def
      quantize_dynamic_Transformer_def layers_forward_quantized Linear_forward_quantized)

text \<open>
  Claim C9. For positive \<open>num_tokens\<close>, \<open>dim\<close>, \<open>depth\<close>, \<open>dim_head\<close> and \<open>heads\<close> the
  construction of the model completes, and on every token tensor of shape
  \<open>(batch, seq_len)\<close> with entries in \<open>[0, num_tokens)\<close> the forward pass raises nothing and
  returns a tensor of shape \<open>(batch, seq_len, num_tokens)\<close>; so it does with the transformer
  quantized, and with the model quantized by \<open>lamda_model\<close>.
\<close>

theorem LaMDA_forward_shape:
  assumes "0 < num_tokens" "0 < dim'" "0 < depth" "0 < dim_head" "0 < heads"
    "length vals = batch * seq_len" "list_all (\<lambda>v. 0 \<le> v \<and> v < num_tokens) vals"
  shows "\<exists>m s'. LaMDA_init num_tokens dim' depth dim_head heads quantized_transformer s
                   = Inr (m, s') \<and>
                 LaMDA_forward m ([batch, seq_len], vals)
                   = Inr [batch, seq_len, nat num_tokens] \<and>
                 LaMDA_forward (quantize_dynamic_LaMDA m) ([batch, seq_len], vals)
                   = Inr [batch, seq_len, nat num_tokens]"
proof -
  let ?obj = "LaMDA_obj num_tokens dim' depth dim_head heads quantized_transformer s"
  have i: "LaMDA_init num_tokens dim' depth dim_head heads quantized_transformer s
             = Inr (?obj, s + 20 + 7 * nat depth)"
    using assms by (intro LaMDA_init_ok) simp_all
  have f: "LaMDA_forward ?obj ([batch, seq_len], vals) = Inr [batch, seq_len, nat num_tokens]"
    using assms by (intro LaMDA_forward_obj) simp_all
  show ?thesis using i f by (simp add: LaMDA_forward_quantized)
qed

theorem LaMDA_forward_shape_witness:
  "(0::int) < 100 \<and> (0::int) < 32 \<and> (0::int) < 2 \<and> (0::int) < 8 \<and> (0::int) < 4 \<and>
   length (replicate 16 (7::int)) = 1 * 16 \<and>
   list_all (\<lambda>v. 0 \<le> v \<and> v < 100) (replicate 16 (7::int)) \<and>
   (\<exists>m s'. LaMDA_init 100 32 2 8 4 False 0 = Inr (m, s') \<and>
            LaMDA_forward m ([1, 16], replicate 16 7) = Inr [1, 16, nat 100])"
proof -
  have l: "list_all (\<lambda>v. 0 \<le> v \<and> v < 100) (replicate 16 (7::int))"
    by (simp add: list_all_iff)
  have n: "length (replicate 16 (7::int)) = 1 * 16" by simp
  from LaMDA_forward_shape [of 100 32 2 8 4 "replicate 16 7" 1 16 False 0, OF _ _ _ _ _ n l] l
  show ?thesis by auto
qed

section \<open>The causal mask\<close>

text \<open>
  In \<open>Attention.forward\<close> the queries and the keys come from the same input, so \<open>i = j\<close>, and
  the mask is set exactly at the entries whose key position is after the query position.
\<close>

lemma causal_mask_self_attention: "causal_mask n n q k \<longleftrightarrow> q < k"
  unfolding causal_mask_def by linarith

end
